theory Spec2Isabelle
  imports Main "HOL-Library.Word"
begin

unbundle bit_operations_syntax

section \<open>Bytes, enumerations and what the build supplies\<close>

text \<open>
  The single-instance core of the repository lives in
  \<^verbatim>\<open>src/3rdparty/singleapplication/singleapplication_p.cpp\<close> (class
  \<^verbatim>\<open>SingleApplicationPrivate\<close>) and, a second time, in
  \<^verbatim>\<open>singlecoreapplication_p.cpp\<close> (class \<^verbatim>\<open>SingleCoreApplicationPrivate\<close>).
  A \<^verbatim>\<open>QByteArray\<close> is a list of bytes; \<^verbatim>\<open>quint16\<close>, \<^verbatim>\<open>quint32\<close>,
  \<^verbatim>\<open>quint64\<close> and \<^verbatim>\<open>qint64\<close> are words of that width, so every addition wraps
  as the C++ one does. The two class headers are not among the sources: what they
  declare is modelled from the specification's data model or taken as a parameter, as
  said at each place. A member \<^verbatim>\<open>name_\<close> of the class is the field \<open>name\<close>
  here, since no name ends with an underscore.
\<close>

type_synonym byte = "8 word"

text \<open>
  Modelled from the spec: the enumeration \<^verbatim>\<open>ConnectionType\<close>, declared in the header.
  The specification lists the tags \<^verbatim>\<open>NewInstance\<close>, \<^verbatim>\<open>SecondaryInstance\<close>,
  \<^verbatim>\<open>Reconnect\<close> and the sentinel \<^verbatim>\<open>Invalid\<close>; the code names the sentinel
  \<^verbatim>\<open>InvalidConnection\<close>.
\<close>

datatype ConnectionType = InvalidConnection | NewInstance | SecondaryInstance | Reconnect

text \<open>
  The flags of \<^verbatim>\<open>SingleApplication::Mode\<close> the code tests. \<^verbatim>\<open>options_ & Mode::X\<close>
  tests one flag, so \<open>options\<close> is the set of the flags that are on.
\<close>

datatype Mode = User | SecondaryNotification | ExcludeAppVersion | ExcludeAppPath

text \<open>
  What the sources call but do not define is a parameter of the model, so that every
  theorem holds for each choice of it: the Qt functions \<^verbatim>\<open>qChecksum\<close>,
  \<^verbatim>\<open>QCryptographicHash\<close> (SHA-256 of all the data added), \<^verbatim>\<open>QByteArray::toBase64\<close>
  and \<^verbatim>\<open>qstrncpy\<close> (destination buffer, source, size; the new buffer), the
  characters of the view \<^verbatim>\<open>QLatin1String(const QByteArray &)\<close> makes of an array
  (Qt 5 measures the view with \<^verbatim>\<open>qstrnlen\<close>, so it ends before the first zero byte
  of the array), the bytes the compiler lays out for the fields of
  \<^verbatim>\<open>InstancesInfo\<close> that precede \<^verbatim>\<open>checksum\<close>
  (\<^verbatim>\<open>offsetof(InstancesInfo, checksum)\<close> many), and the numeric value of each
  \<^verbatim>\<open>ConnectionType\<close>.
\<close>

record platform =
  qChecksum :: "byte list \<Rightarrow> 16 word"
  sha256 :: "byte list \<Rightarrow> byte list"
  toBase64 :: "byte list \<Rightarrow> byte list"
  qstrncpy :: "byte list \<Rightarrow> byte list \<Rightarrow> nat \<Rightarrow> byte list"
  latin1String :: "byte list \<Rightarrow> byte list"
  objectBytes :: "bool \<Rightarrow> 32 word \<Rightarrow> 64 word \<Rightarrow> byte list \<Rightarrow> byte list"
  typeTag :: "ConnectionType \<Rightarrow> byte"

text \<open>
  The facts a process reads from its surroundings: the application's identity
  (\<^verbatim>\<open>QCoreApplication\<close>'s static accessors, already in UTF-8), the \<^verbatim>\<open>APPIMAGE\<close>
  and \<^verbatim>\<open>USER\<close> environment variables (empty when unset), the name
  \<^verbatim>\<open>getpwuid(geteuid())\<close> finds, if any, and the process id.
\<close>

record app_env =
  applicationName :: "byte list"
  organizationName :: "byte list"
  organizationDomain :: "byte list"
  applicationVersion :: "byte list"
  applicationFilePath :: "byte list"
  env_APPIMAGE :: "byte list"
  env_USER :: "byte list"
  pw_name :: "byte list option"
  applicationPid :: "64 word"

section \<open>The shared block and the state of one process\<close>

text \<open>
  Modelled from the spec: the struct \<^verbatim>\<open>InstancesInfo\<close> the shared memory block is
  read as, declared in the header. The fields are the ones the code assigns, with the
  widths of the specification's ElectionStore layout: a flag, an unsigned 32-bit
  counter, a signed 64-bit process id (\<open>- 1\<close> for none), a fixed-size character
  buffer, whose size \<^verbatim>\<open>sizeof(instance->primaryUser)\<close> is the length of the list, and
  an unsigned 16-bit checksum.
\<close>

record InstancesInfo =
  primary :: bool
  secondary :: "32 word"
  primaryPid :: "64 word"
  primaryUser :: "byte list"
  checksum :: "16 word"

text \<open>The server \<open>startPrimary\<close> creates: its access option and the name it listens under.\<close>

datatype SocketOption = UserAccessOption | WorldAccessOption

record QLocalServer =
  socketOptions :: SocketOption
  serverName :: "byte list"

text \<open>
  Modelled from the spec: the enumeration \<^verbatim>\<open>ConnectionStage\<close> and the struct
  \<^verbatim>\<open>ConnectionInfo\<close>, declared in the header. The four stages are the ones the
  \<^verbatim>\<open>switch\<close> of the \<^verbatim>\<open>readyRead\<close> slot names (the specification's
  AwaitingInitHeader, AwaitingInitBody, AwaitingMessageHeader, AwaitingMessageBody);
  the expected frame length is the \<^verbatim>\<open>quint64\<close> the header stage reads, the
  instance id the \<^verbatim>\<open>quint32\<close> of the handshake.
\<close>

datatype ConnectionStage =
  StageInitHeader | StageInitBody | StageConnectedHeader | StageConnectedBody

record ConnectionInfo =
  msgLen :: "64 word"
  instanceId :: "32 word"
  stage :: ConnectionStage

text \<open>
  A socket the server accepted, seen from the primary: the bytes that arrived and were
  not read yet, every byte written to the peer so far, and whether it is still open.
\<close>

record QLocalSocket =
  readBuffer :: "byte list"
  written :: "byte list"
  isOpen :: bool

datatype signal = instanceStarted | receivedMessage "32 word" "byte list"

text \<open>
  The members of \<^verbatim>\<open>SingleApplicationPrivate\<close> the member functions use.
  \<open>memory\<close> and \<open>socket\<close> say whether the pointer is set; the block a set
  \<^verbatim>\<open>memory_\<close> points to is shared by all processes and is passed to each operation
  beside the state, and the socket \<^verbatim>\<open>socket_\<close> points to is the
  \<open>ClientSocket\<close> below. \<open>sockets\<close> holds the accepted sockets by their
  address, and \<open>emitted\<close> the signals sent through \<^verbatim>\<open>q_ptr\<close>, oldest first.
\<close>

record SingleApplicationPrivate =
  options :: "Mode set"
  blockServerName :: "byte list"
  instanceNumber :: "32 word"
  memory :: bool
  socket :: bool
  server :: "QLocalServer option"
  connectionMap :: "nat \<rightharpoonup> ConnectionInfo"
  sockets :: "nat \<Rightarrow> QLocalSocket"
  emitted :: "signal list"

subsection \<open>getUsername (Unix build, with geteuid and getpwuid)\<close>

definition getUsername :: "app_env \<Rightarrow> byte list" where
  "getUsername e =
     (let username = (case pw_name e of Some n \<Rightarrow> n | None \<Rightarrow> [])
      in if username = [] then env_USER e else username)"

subsection \<open>blockChecksum\<close>

text \<open>
  \<^verbatim>\<open>qChecksum\<close> over the first \<^verbatim>\<open>offsetof(InstancesInfo, checksum)\<close> bytes of the
  block: the bytes of the four fields before \<open>checksum\<close>.
\<close>

definition blockChecksum :: "platform \<Rightarrow> InstancesInfo \<Rightarrow> 16 word" where
  "blockChecksum P m =
     qChecksum P (objectBytes P (primary m) (secondary m) (primaryPid m) (primaryUser m))"

subsection \<open>initializeMemoryBlock, startPrimary, startSecondary, the destructor\<close>

definition initializeMemoryBlock :: "platform \<Rightarrow> InstancesInfo \<Rightarrow> InstancesInfo" where
  "initializeMemoryBlock P m =
     (let m1 = m\<lparr>primary := False\<rparr>;
          m2 = m1\<lparr>secondary := 0\<rparr>;
          m3 = m2\<lparr>primaryPid := - 1\<rparr>;
          m4 = m3\<lparr>primaryUser := (primaryUser m3)[0 := 0]\<rparr>
      in m4\<lparr>checksum := blockChecksum P m4\<rparr>)"

definition startPrimary ::
  "platform \<Rightarrow> app_env \<Rightarrow> InstancesInfo \<Rightarrow> SingleApplicationPrivate
     \<Rightarrow> InstancesInfo \<times> SingleApplicationPrivate" where
  "startPrimary P e m s =
     (let m1 = m\<lparr>primary := True\<rparr>;
          m2 = m1\<lparr>primaryPid := applicationPid e\<rparr>;
          m3 = m2\<lparr>primaryUser :=
                  qstrncpy P (primaryUser m2) (getUsername e) (length (primaryUser m2))\<rparr>;
          m4 = m3\<lparr>checksum := blockChecksum P m3\<rparr>;
          s1 = s\<lparr>instanceNumber := 0\<rparr>
      in (m4, s1\<lparr>server := Some \<lparr>socketOptions =
                     (if User \<in> options s1 then UserAccessOption else WorldAccessOption),
                   serverName = blockServerName s1\<rparr>\<rparr>))"

definition startSecondary ::
  "platform \<Rightarrow> InstancesInfo \<Rightarrow> SingleApplicationPrivate
     \<Rightarrow> InstancesInfo \<times> SingleApplicationPrivate" where
  "startSecondary P m s =
     (let m1 = m\<lparr>secondary := secondary m + 1\<rparr>;
          m2 = m1\<lparr>checksum := blockChecksum P m1\<rparr>
      in (m2, s\<lparr>instanceNumber := secondary m2\<rparr>))"

text \<open>
  The destructor closes and forgets the client socket; with a block attached it clears
  the primary's record when this process ran the server, and detaches.
\<close>

definition destructor ::
  "platform \<Rightarrow> InstancesInfo \<Rightarrow> SingleApplicationPrivate
     \<Rightarrow> InstancesInfo \<times> SingleApplicationPrivate" where
  "destructor P m s =
     (let s1 = s\<lparr>socket := False\<rparr>
      in if memory s1
         then (if server s1 = None then (m, s1\<lparr>memory := False\<rparr>)
               else (let m1 = m\<lparr>primary := False\<rparr>;
                         m2 = m1\<lparr>primaryPid := - 1\<rparr>;
                         m3 = m2\<lparr>primaryUser := (primaryUser m2)[0 := 0]\<rparr>
                     in (m3\<lparr>checksum := blockChecksum P m3\<rparr>, s1\<lparr>memory := False\<rparr>)))
         else (m, s1))"

text \<open>
  Processes that register one after the other as secondaries on the same block: each
  call sees the block the one before left.
\<close>

fun startSecondaries ::
  "platform \<Rightarrow> InstancesInfo \<Rightarrow> SingleApplicationPrivate list
     \<Rightarrow> InstancesInfo \<times> SingleApplicationPrivate list" where
  "startSecondaries P m [] = (m, [])"
| "startSecondaries P m (s # ss) =
     (case startSecondary P m s of
        (m1, s1) \<Rightarrow> (case startSecondaries P m1 ss of (m2, ss1) \<Rightarrow> (m2, s1 # ss1)))"

section \<open>QDataStream, as the protocol uses it\<close>

text \<open>
  \<^verbatim>\<open>QDataStream\<close> writes integers big-endian (its default byte order) and a
  \<^verbatim>\<open>QByteArray\<close> as its 32-bit length followed by its bytes.
\<close>

fun be_encode :: "nat \<Rightarrow> 'a::len word \<Rightarrow> byte list" where
  "be_encode 0 w = []"
| "be_encode (Suc n) w = ucast (drop_bit (8 * n) w) # be_encode n w"

fun be_decode :: "byte list \<Rightarrow> 'a::len word" where
  "be_decode [] = 0"
| "be_decode (b # bs) = push_bit (8 * length bs) (ucast b) OR be_decode bs"

definition put_quint8 :: "8 word \<Rightarrow> byte list" where
  "put_quint8 v = be_encode 1 v"

definition put_quint16 :: "16 word \<Rightarrow> byte list" where
  "put_quint16 v = be_encode 2 v"

definition put_quint32 :: "32 word \<Rightarrow> byte list" where
  "put_quint32 v = be_encode 4 v"

definition put_quint64 :: "64 word \<Rightarrow> byte list" where
  "put_quint64 v = be_encode 8 v"

definition put_QByteArray :: "byte list \<Rightarrow> byte list" where
  "put_QByteArray bs = put_quint32 (of_nat (length bs)) @ bs"

text \<open>
  A stream that reads: the bytes left in its device, and whether its status is still
  \<^verbatim>\<open>Ok\<close>. A read that finds too few bytes takes what is left, sets the status to
  \<^verbatim>\<open>ReadPastEnd\<close> and yields zero (an empty array); the stream goes on reading
  after it.
\<close>

record QDataStream =
  device :: "byte list"
  statusOk :: bool

definition readBlock :: "nat \<Rightarrow> QDataStream \<Rightarrow> byte list option \<times> QDataStream" where
  "readBlock n d =
     (if n \<le> length (device d)
      then (Some (take n (device d)), d\<lparr>device := drop n (device d)\<rparr>)
      else (None, d\<lparr>device := [], statusOk := False\<rparr>))"

definition get_quint8 :: "QDataStream \<Rightarrow> 8 word \<times> QDataStream" where
  "get_quint8 d = (case readBlock 1 d of (Some bs, d1) \<Rightarrow> (be_decode bs, d1) | (None, d1) \<Rightarrow> (0, d1))"

definition get_quint16 :: "QDataStream \<Rightarrow> 16 word \<times> QDataStream" where
  "get_quint16 d = (case readBlock 2 d of (Some bs, d1) \<Rightarrow> (be_decode bs, d1) | (None, d1) \<Rightarrow> (0, d1))"

definition get_quint32 :: "QDataStream \<Rightarrow> 32 word \<times> QDataStream" where
  "get_quint32 d = (case readBlock 4 d of (Some bs, d1) \<Rightarrow> (be_decode bs, d1) | (None, d1) \<Rightarrow> (0, d1))"

definition get_quint64 :: "QDataStream \<Rightarrow> 64 word \<times> QDataStream" where
  "get_quint64 d = (case readBlock 8 d of (Some bs, d1) \<Rightarrow> (be_decode bs, d1) | (None, d1) \<Rightarrow> (0, d1))"

definition get_QByteArray :: "QDataStream \<Rightarrow> byte list \<times> QDataStream" where
  "get_QByteArray d =
     (case get_quint32 d of
        (len, d1) \<Rightarrow>
          if len = 0xFFFFFFFF then ([], d1)
          else (case readBlock (unat len) d1 of
                  (Some bs, d2) \<Rightarrow> (bs, d2)
                | (None, d2) \<Rightarrow> ([], d2)))"

section \<open>The primary's listener\<close>

text \<open>
  Modelled from the spec: the constructor \<^verbatim>\<open>ConnectionInfo()\<close>, defined in the
  header. The specification registers a fresh entry in the state AwaitingInitHeader;
  the two numbers start at zero here, and no theorem depends on that.
\<close>

definition newConnectionInfo :: ConnectionInfo where
  "newConnectionInfo = \<lparr>msgLen = 0, instanceId = 0, stage = StageInitHeader\<rparr>"

text \<open>\<^verbatim>\<open>connectionMap_[sock]\<close>: \<^verbatim>\<open>QMap::operator[]\<close> inserts a default entry for a new key.\<close>

definition connectionMapAt ::
  "nat \<Rightarrow> SingleApplicationPrivate \<Rightarrow> ConnectionInfo \<times> SingleApplicationPrivate" where
  "connectionMapAt sock s =
     (case connectionMap s sock of
        Some info \<Rightarrow> (info, s)
      | None \<Rightarrow> (newConnectionInfo,
                 s\<lparr>connectionMap := (connectionMap s)(sock \<mapsto> newConnectionInfo)\<rparr>))"

definition setConnectionInfo ::
  "nat \<Rightarrow> ConnectionInfo \<Rightarrow> SingleApplicationPrivate \<Rightarrow> SingleApplicationPrivate" where
  "setConnectionInfo sock info s = s\<lparr>connectionMap := (connectionMap s)(sock \<mapsto> info)\<rparr>"

definition setSocket ::
  "nat \<Rightarrow> QLocalSocket \<Rightarrow> SingleApplicationPrivate \<Rightarrow> SingleApplicationPrivate" where
  "setSocket sock q s = s\<lparr>sockets := (sockets s)(sock := q)\<rparr>"

definition bytesAvailable :: "nat \<Rightarrow> SingleApplicationPrivate \<Rightarrow> int" where
  "bytesAvailable sock s = int (length (readBuffer (sockets s sock)))"

text \<open>\<^verbatim>\<open>sock->readAll()\<close>: every buffered byte, and the socket with none left.\<close>

definition readAll ::
  "nat \<Rightarrow> SingleApplicationPrivate \<Rightarrow> byte list \<times> SingleApplicationPrivate" where
  "readAll sock s =
     (readBuffer (sockets s sock), setSocket sock ((sockets s sock)\<lparr>readBuffer := []\<rparr>) s)"

text \<open>\<^verbatim>\<open>sock->putChar('\n')\<close>.\<close>

definition writeAck :: "nat \<Rightarrow> SingleApplicationPrivate \<Rightarrow> SingleApplicationPrivate" where
  "writeAck sock s =
     setSocket sock ((sockets s sock)\<lparr>written := written (sockets s sock) @ [10]\<rparr>) s"

definition emit :: "signal \<Rightarrow> SingleApplicationPrivate \<Rightarrow> SingleApplicationPrivate" where
  "emit sig s = s\<lparr>emitted := emitted s @ [sig]\<rparr>"

definition readMessageHeader ::
  "nat \<Rightarrow> ConnectionStage \<Rightarrow> SingleApplicationPrivate \<Rightarrow> SingleApplicationPrivate" where
  "readMessageHeader sock nextStage s =
     (if connectionMap s sock = None then s
      else if bytesAvailable sock s < 8 then s
      else (case get_quint64 \<lparr>device = readBuffer (sockets s sock), statusOk = True\<rparr> of
              (len, headerStream) \<Rightarrow>
                (let s1 = setSocket sock ((sockets s sock)\<lparr>readBuffer := device headerStream\<rparr>) s
                 in case connectionMapAt sock s1 of
                      (info, s2) \<Rightarrow>
                        writeAck sock
                          (setConnectionInfo sock (info\<lparr>stage := nextStage, msgLen := len\<rparr>) s2))))"

definition isFrameComplete :: "nat \<Rightarrow> SingleApplicationPrivate \<Rightarrow> bool" where
  "isFrameComplete sock s =
     (if connectionMap s sock = None then False
      else (case connectionMapAt sock s of
              (info, s1) \<Rightarrow> sint (msgLen info) \<le> bytesAvailable sock s1))"

definition slotDataAvailable ::
  "nat \<Rightarrow> 32 word \<Rightarrow> SingleApplicationPrivate \<Rightarrow> SingleApplicationPrivate" where
  "slotDataAvailable dataSocket instId s =
     (if \<not> isFrameComplete dataSocket s then s
      else (case readAll dataSocket s of
              (message, s1) \<Rightarrow>
                (let s2 = writeAck dataSocket s1
                 in case connectionMapAt dataSocket s2 of
                      (info, s3) \<Rightarrow>
                        emit (receivedMessage instId message)
                          (setConnectionInfo dataSocket (info\<lparr>stage := StageConnectedHeader\<rparr>) s3))))"

definition slotClientConnectionClosed ::
  "nat \<Rightarrow> 32 word \<Rightarrow> SingleApplicationPrivate \<Rightarrow> SingleApplicationPrivate" where
  "slotClientConnectionClosed closedSocket instId s =
     (if 0 < bytesAvailable closedSocket s then slotDataAvailable closedSocket instId s else s)"

text \<open>The slot \<^verbatim>\<open>slotConnectionEstablished\<close> connects to \<^verbatim>\<open>aboutToClose\<close>.\<close>

definition aboutToClose :: "nat \<Rightarrow> SingleApplicationPrivate \<Rightarrow> SingleApplicationPrivate" where
  "aboutToClose sock s =
     (case connectionMapAt sock s of
        (info, s1) \<Rightarrow> slotClientConnectionClosed sock (instanceId info) s1)"

text \<open>
  \<^verbatim>\<open>sock->close()\<close> on an open socket: \<^verbatim>\<open>aboutToClose\<close> is emitted first, then the
  buffers are dropped and the socket is closed. The entry of the socket leaves
  \<^verbatim>\<open>connectionMap_\<close> when the socket is destroyed.
\<close>

definition socketClose :: "nat \<Rightarrow> SingleApplicationPrivate \<Rightarrow> SingleApplicationPrivate" where
  "socketClose sock s =
     (if isOpen (sockets s sock)
      then (let s1 = aboutToClose sock s
            in setSocket sock ((sockets s1 sock)\<lparr>readBuffer := [], isOpen := False\<rparr>) s1)
      else s)"

definition destroyed :: "nat \<Rightarrow> SingleApplicationPrivate \<Rightarrow> SingleApplicationPrivate" where
  "destroyed sock s = s\<lparr>connectionMap := (connectionMap s)(sock := None)\<rparr>"

text \<open>
  The fields of the handshake body, read in the order of \<^verbatim>\<open>readInitMessageBody\<close>:
  the name, the connection type, the instance id, the checksum, and the status of the
  stream after the four reads. The name is compared as
  \<^verbatim>\<open>QLatin1String(latin1Name) == blockServerName_\<close>: the characters of the view
  of the array against the characters of the block name, which is Base64 text, one
  byte per character. The view need not hold every byte of the array.
\<close>

definition readInitFields :: "byte list \<Rightarrow> byte list \<times> 8 word \<times> 32 word \<times> 16 word \<times> bool" where
  "readInitFields msgBytes =
     (case get_QByteArray \<lparr>device = msgBytes, statusOk = True\<rparr> of
        (latin1Name, d1) \<Rightarrow>
          (case get_quint8 d1 of
             (connTypeVal, d2) \<Rightarrow>
               (case get_quint32 d2 of
                  (instId, d3) \<Rightarrow>
                    (case get_quint16 d3 of
                       (msgChecksum, d4) \<Rightarrow>
                         (latin1Name, connTypeVal, instId, msgChecksum, statusOk d4)))))"

text \<open>
  \<^verbatim>\<open>qChecksum(msgBytes.constData(), static_cast<quint32>(msgBytes.length() - sizeof(quint16)))\<close>.
  The subtraction is unsigned: on fewer than two bytes it wraps, and the checksum would
  read far past the end of the array, which is the fault of the model.
\<close>

datatype fault = ReadPastBuffer

definition actualChecksum :: "platform \<Rightarrow> byte list \<Rightarrow> fault + 16 word" where
  "actualChecksum P msgBytes =
     (if length msgBytes < 2 then Inl ReadPastBuffer
      else Inr (qChecksum P
                  (take (unat (of_nat (length msgBytes - 2) :: 32 word)) msgBytes)))"

definition readInitMessageBody ::
  "platform \<Rightarrow> nat \<Rightarrow> SingleApplicationPrivate \<Rightarrow> fault + SingleApplicationPrivate" where
  "readInitMessageBody P sock s =
     (if \<not> isFrameComplete sock s then Inr s
      else (case readAll sock s of
              (msgBytes, s1) \<Rightarrow>
                (case readInitFields msgBytes of
                   (latin1Name, connTypeVal, instId, msgChecksum, streamOk) \<Rightarrow>
                     (case actualChecksum P msgBytes of
                        Inl f \<Rightarrow> Inl f
                      | Inr actual \<Rightarrow>
                          (let isValid = (streamOk
                                            \<and> latin1String P latin1Name = blockServerName s1
                                            \<and> msgChecksum = actual)
                           in if \<not> isValid then Inr (socketClose sock s1)
                              else (case connectionMapAt sock s1 of
                                      (info, s2) \<Rightarrow>
                                        (let s3 = setConnectionInfo sock
                                                    (info\<lparr>instanceId := instId,
                                                           stage := StageConnectedHeader\<rparr>) s2;
                                             s4 = (if connTypeVal = typeTag P NewInstance
                                                      \<or> (connTypeVal = typeTag P SecondaryInstance
                                                          \<and> SecondaryNotification \<in> options s3)
                                                   then emit instanceStarted s3 else s3)
                                         in Inr (writeAck sock s4))))))))"

text \<open>The slot \<^verbatim>\<open>slotConnectionEstablished\<close> connects to \<^verbatim>\<open>readyRead\<close>.\<close>

definition readyRead ::
  "platform \<Rightarrow> nat \<Rightarrow> SingleApplicationPrivate \<Rightarrow> fault + SingleApplicationPrivate" where
  "readyRead P sock s =
     (case connectionMapAt sock s of
        (info, s1) \<Rightarrow>
          (case stage info of
             StageInitHeader \<Rightarrow> Inr (readMessageHeader sock StageInitBody s1)
           | StageInitBody \<Rightarrow> readInitMessageBody P sock s1
           | StageConnectedHeader \<Rightarrow> Inr (readMessageHeader sock StageConnectedBody s1)
           | StageConnectedBody \<Rightarrow> Inr (slotDataAvailable sock (instanceId info) s1)))"

text \<open>
  \<^verbatim>\<open>slotConnectionEstablished\<close>: the next pending connection, a new socket at address
  \<^verbatim>\<open>sock\<close>, gets a fresh entry (the four slots it connects are \<open>aboutToClose\<close>,
  \<open>destroyed\<close> and \<open>readyRead\<close> above, and \<^verbatim>\<open>deleteLater\<close>).
\<close>

definition slotConnectionEstablished ::
  "nat \<Rightarrow> SingleApplicationPrivate \<Rightarrow> SingleApplicationPrivate" where
  "slotConnectionEstablished sock s =
     setConnectionInfo sock newConnectionInfo
       (setSocket sock \<lparr>readBuffer = [], written = [], isOpen = True\<rparr> s)"

subsection \<open>The event loop of the primary\<close>

text \<open>
  Qt emits \<^verbatim>\<open>readyRead\<close> when new bytes have arrived on an open socket: a write of no
  bytes by the peer sends nothing and wakes nobody.
\<close>

definition dataArrived ::
  "platform \<Rightarrow> nat \<Rightarrow> byte list \<Rightarrow> SingleApplicationPrivate
     \<Rightarrow> fault + SingleApplicationPrivate" where
  "dataArrived P sock chunk s =
     (if isOpen (sockets s sock) \<and> chunk \<noteq> []
      then readyRead P sock
             (setSocket sock
                ((sockets s sock)\<lparr>readBuffer := readBuffer (sockets s sock) @ chunk\<rparr>) s)
      else Inr s)"

primrec dataArrivedAll ::
  "platform \<Rightarrow> nat \<Rightarrow> byte list list \<Rightarrow> SingleApplicationPrivate
     \<Rightarrow> fault + SingleApplicationPrivate" where
  "dataArrivedAll P sock [] s = Inr s"
| "dataArrivedAll P sock (chunk # chunks) s =
     (case dataArrived P sock chunk s of
        Inl f \<Rightarrow> Inl f
      | Inr s1 \<Rightarrow> dataArrivedAll P sock chunks s1)"

section \<open>genBlockServerName (Unix build)\<close>

text \<open>\<^verbatim>\<open>QByteArray::replace("/", "_")\<close>, for two single characters.\<close>

definition replaceByte :: "byte \<Rightarrow> byte \<Rightarrow> byte list \<Rightarrow> byte list" where
  "replaceByte before after bs = map (\<lambda>c. if c = before then after else c) bs"

text \<open>
  The hash takes every \<^verbatim>\<open>addData\<close> in turn, that is, the concatenation; the name is
  its Base64 form with each \<^verbatim>\<open>/\<close> (47) replaced by \<^verbatim>\<open>_\<close> (95).
\<close>

definition genBlockServerName ::
  "platform \<Rightarrow> app_env \<Rightarrow> SingleApplicationPrivate \<Rightarrow> SingleApplicationPrivate" where
  "genBlockServerName P e s =
     (let d0 = map of_char ''SingleApplication'';
          d1 = d0 @ applicationName e;
          d2 = d1 @ organizationName e;
          d3 = d2 @ organizationDomain e;
          d4 = (if ExcludeAppVersion \<in> options s then d3 else d3 @ applicationVersion e);
          d5 = (if ExcludeAppPath \<in> options s then d4
                else if env_APPIMAGE e = [] then d4 @ applicationFilePath e
                else d4 @ env_APPIMAGE e);
          d6 = (if User \<in> options s then d5 @ getUsername e else d5)
      in s\<lparr>blockServerName := replaceByte 47 95 (toBase64 P (sha256 P d6))\<rparr>)"

section \<open>The secondary's side of a connection\<close>

text \<open>
  The \<^verbatim>\<open>QLocalSocket\<close> behind \<^verbatim>\<open>socket_\<close>, together with what it talks to. The
  primary at the other end is \<open>peer\<close>, and \<open>peerSocket\<close> is the address of the
  socket the primary's server hands out for this connection; \<open>consumed\<close> counts the
  bytes of the primary's output this side has read. What the code cannot decide is
  answered by the surroundings, one answer per call, numbered by \<open>tick\<close>: what
  \<^verbatim>\<open>QElapsedTimer::elapsed\<close> reads, the state \<^verbatim>\<open>connectToServer\<close> and
  \<^verbatim>\<open>waitForConnected\<close> (with its timeout) leave the socket in, and whether bytes
  on their way arrive before \<^verbatim>\<open>waitForReadyRead\<close> (with its timeout) gives up.
  The timeouts are \<open>int\<close>: no run of the protocol lasts \<open>2 ^ 31\<close> milliseconds.
\<close>

datatype LocalSocketState = UnconnectedState | ConnectingState | ConnectedState | ClosingState

record ClientSocket =
  sockState :: LocalSocketState
  peer :: SingleApplicationPrivate
  peerSocket :: nat
  consumed :: nat
  tick :: nat
  elapsedAt :: "nat \<Rightarrow> int"
  connectResult :: "nat \<Rightarrow> LocalSocketState"
  waitConnectedResult :: "nat \<Rightarrow> int \<Rightarrow> LocalSocketState"
  readyInTime :: "nat \<Rightarrow> int \<Rightarrow> bool"

definition elapsed :: "ClientSocket \<Rightarrow> int \<times> ClientSocket" where
  "elapsed w = (elapsedAt w (tick w), w\<lparr>tick := Suc (tick w)\<rparr>)"

definition unread :: "ClientSocket \<Rightarrow> byte list" where
  "unread w = drop (consumed w) (written (sockets (peer w) (peerSocket w)))"

text \<open>
  \<^verbatim>\<open>socket_->write(msg); socket_->flush()\<close>: the bytes reach the primary's socket, and
  its event loop reacts before this side looks again.
\<close>

definition socketWrite :: "platform \<Rightarrow> byte list \<Rightarrow> ClientSocket \<Rightarrow> fault + ClientSocket" where
  "socketWrite P msg w =
     (if sockState w = ConnectedState
      then (case dataArrived P (peerSocket w) msg (peer w) of
              Inl f \<Rightarrow> Inl f
            | Inr p \<Rightarrow> Inr (w\<lparr>peer := p\<rparr>))
      else Inr w)"

definition waitForReadyRead :: "int \<Rightarrow> ClientSocket \<Rightarrow> bool \<times> ClientSocket" where
  "waitForReadyRead timeout w =
     (unread w \<noteq> [] \<and> readyInTime w (tick w) timeout, w\<lparr>tick := Suc (tick w)\<rparr>)"

definition socketRead :: "nat \<Rightarrow> ClientSocket \<Rightarrow> ClientSocket" where
  "socketRead n w = w\<lparr>consumed := consumed w + min n (length (unread w))\<rparr>"

definition writeConfirmedFrame ::
  "platform \<Rightarrow> int \<Rightarrow> byte list \<Rightarrow> ClientSocket \<Rightarrow> fault + (bool \<times> ClientSocket)" where
  "writeConfirmedFrame P timeout msg w =
     (case socketWrite P msg w of
        Inl f \<Rightarrow> Inl f
      | Inr w1 \<Rightarrow>
          (case waitForReadyRead timeout w1 of
             (result, w2) \<Rightarrow>
               if result then Inr (True, socketRead 1 w2) else Inr (False, w2)))"

definition writeConfirmedMessage ::
  "platform \<Rightarrow> int \<Rightarrow> byte list \<Rightarrow> ClientSocket \<Rightarrow> fault + (bool \<times> ClientSocket)" where
  "writeConfirmedMessage P timeout msg w =
     (let header = put_quint64 (of_nat (length msg))
      in case elapsed w of
           (e1, w1) \<Rightarrow>
             (case writeConfirmedFrame P (timeout - e1) header w1 of
                Inl f \<Rightarrow> Inl f
              | Inr (ok, w2) \<Rightarrow>
                  if \<not> ok then Inr (False, w2)
                  else (case elapsed w2 of
                          (e2, w3) \<Rightarrow> writeConfirmedFrame P (timeout - e2) msg w3)))"

text \<open>
  A socket that becomes connected has been accepted by the primary's server, which
  runs \<open>slotConnectionEstablished\<close> for it. A server that does not listen under the
  name refuses.
\<close>

definition enterState :: "LocalSocketState \<Rightarrow> ClientSocket \<Rightarrow> ClientSocket" where
  "enterState st w =
     (if st = ConnectedState \<and> sockState w \<noteq> ConnectedState
      then w\<lparr>sockState := st, peer := slotConnectionEstablished (peerSocket w) (peer w),
             consumed := 0\<rparr>
      else w\<lparr>sockState := st\<rparr>)"

definition connectToServer :: "byte list \<Rightarrow> ClientSocket \<Rightarrow> ClientSocket" where
  "connectToServer name w =
     (let w1 = w\<lparr>tick := Suc (tick w)\<rparr>
      in case server (peer w) of
           None \<Rightarrow> enterState UnconnectedState w1
         | Some srv \<Rightarrow>
             if serverName srv = name then enterState (connectResult w (tick w)) w1
             else enterState UnconnectedState w1)"

definition waitForConnected :: "int \<Rightarrow> ClientSocket \<Rightarrow> ClientSocket" where
  "waitForConnected timeout w =
     enterState (waitConnectedResult w (tick w) timeout) (w\<lparr>tick := Suc (tick w)\<rparr>)"

text \<open>\<^verbatim>\<open>QThread::msleep\<close> of 8 to 17 milliseconds: time passes.\<close>

definition randomSleep :: "ClientSocket \<Rightarrow> ClientSocket" where
  "randomSleep w = w\<lparr>tick := Suc (tick w)\<rparr>"

text \<open>
  The \<^verbatim>\<open>forever\<close> loop of \<open>connectToPrimary\<close>, with fuel: \<open>None\<close> when the loop
  has not left after that many rounds.
\<close>

fun connectLoop ::
  "nat \<Rightarrow> int \<Rightarrow> byte list \<Rightarrow> ClientSocket \<Rightarrow> (bool \<times> ClientSocket) option" where
  "connectLoop 0 timeout name w = None"
| "connectLoop (Suc n) timeout name w =
     (let w1 = randomSleep w;
          w2 = (if sockState w1 \<noteq> ConnectingState then connectToServer name w1 else w1);
          w3 = (if sockState w2 = ConnectingState
                then (case elapsed w2 of (e, w') \<Rightarrow> waitForConnected (timeout - e) w')
                else w2)
      in if sockState w3 = ConnectedState then Some (True, w3)
         else (case elapsed w3 of
                 (e, w4) \<Rightarrow>
                   if timeout \<le> e then Some (False, w4) else connectLoop n timeout name w4))"

definition connectToPrimary ::
  "platform \<Rightarrow> nat \<Rightarrow> int \<Rightarrow> ConnectionType \<Rightarrow> SingleApplicationPrivate \<Rightarrow> ClientSocket
     \<Rightarrow> (fault + (bool \<times> SingleApplicationPrivate \<times> ClientSocket)) option" where
  "connectToPrimary P fuel timeout connectionType s w =
     (let w0 = (if socket s then w else w\<lparr>sockState := UnconnectedState\<rparr>);
          s1 = s\<lparr>socket := True\<rparr>
      in if sockState w0 = ConnectedState then Some (Inr (True, s1, w0))
         else (case connectLoop fuel timeout (blockServerName s1) w0 of
                 None \<Rightarrow> None
               | Some (connected, w1) \<Rightarrow>
                   if \<not> connected then Some (Inr (False, s1, w1))
                   else (let initMsg = put_QByteArray (blockServerName s1)
                                         @ put_quint8 (typeTag P connectionType)
                                         @ put_quint32 (instanceNumber s1);
                             checksum = qChecksum P
                               (take (unat (of_nat (length initMsg) :: 32 word)) initMsg);
                             initMsg2 = initMsg @ put_quint16 checksum
                         in case elapsed w1 of
                              (e, w2) \<Rightarrow>
                                (case writeConfirmedMessage P (timeout - e) initMsg2 w2 of
                                   Inl f \<Rightarrow> Some (Inl f)
                                 | Inr (result, w3) \<Rightarrow> Some (Inr (result, s1, w3))))))"

section \<open>The second copy: SingleCoreApplicationPrivate\<close>

text \<open>
  \<^verbatim>\<open>singlecoreapplication_p.cpp\<close> defines the same member functions for the class
  \<^verbatim>\<open>SingleCoreApplicationPrivate\<close>, over members of the same names and types. Each is
  translated here from that file, under the name of the function with \<open>core_\<close> in
  front; the state, the block, the Qt streams and sockets and the surroundings are the
  ones above, with the event loop and the secondary's socket calling the slots of this
  copy.
\<close>

definition core_getUsername :: "app_env \<Rightarrow> byte list" where
  "core_getUsername e =
     (let username = (case pw_name e of Some n \<Rightarrow> n | None \<Rightarrow> [])
      in if username = [] then env_USER e else username)"

definition core_blockChecksum :: "platform \<Rightarrow> InstancesInfo \<Rightarrow> 16 word" where
  "core_blockChecksum P m =
     qChecksum P (objectBytes P (primary m) (secondary m) (primaryPid m) (primaryUser m))"

definition core_initializeMemoryBlock :: "platform \<Rightarrow> InstancesInfo \<Rightarrow> InstancesInfo" where
  "core_initializeMemoryBlock P m =
     (let m1 = m\<lparr>primary := False\<rparr>;
          m2 = m1\<lparr>secondary := 0\<rparr>;
          m3 = m2\<lparr>primaryPid := - 1\<rparr>;
          m4 = m3\<lparr>primaryUser := (primaryUser m3)[0 := 0]\<rparr>
      in m4\<lparr>checksum := core_blockChecksum P m4\<rparr>)"

definition core_startPrimary ::
  "platform \<Rightarrow> app_env \<Rightarrow> InstancesInfo \<Rightarrow> SingleApplicationPrivate
     \<Rightarrow> InstancesInfo \<times> SingleApplicationPrivate" where
  "core_startPrimary P e m s =
     (let m1 = m\<lparr>primary := True\<rparr>;
          m2 = m1\<lparr>primaryPid := applicationPid e\<rparr>;
          m3 = m2\<lparr>primaryUser :=
                  qstrncpy P (primaryUser m2) (core_getUsername e) (length (primaryUser m2))\<rparr>;
          m4 = m3\<lparr>checksum := core_blockChecksum P m3\<rparr>;
          s1 = s\<lparr>instanceNumber := 0\<rparr>
      in (m4, s1\<lparr>server := Some \<lparr>socketOptions =
                     (if User \<in> options s1 then UserAccessOption else WorldAccessOption),
                   serverName = blockServerName s1\<rparr>\<rparr>))"

definition core_startSecondary ::
  "platform \<Rightarrow> InstancesInfo \<Rightarrow> SingleApplicationPrivate
     \<Rightarrow> InstancesInfo \<times> SingleApplicationPrivate" where
  "core_startSecondary P m s =
     (let m1 = m\<lparr>secondary := secondary m + 1\<rparr>;
          m2 = m1\<lparr>checksum := core_blockChecksum P m1\<rparr>
      in (m2, s\<lparr>instanceNumber := secondary m2\<rparr>))"

definition core_destructor ::
  "platform \<Rightarrow> InstancesInfo \<Rightarrow> SingleApplicationPrivate
     \<Rightarrow> InstancesInfo \<times> SingleApplicationPrivate" where
  "core_destructor P m s =
     (let s1 = s\<lparr>socket := False\<rparr>
      in if memory s1
         then (if server s1 = None then (m, s1\<lparr>memory := False\<rparr>)
               else (let m1 = m\<lparr>primary := False\<rparr>;
                         m2 = m1\<lparr>primaryPid := - 1\<rparr>;
                         m3 = m2\<lparr>primaryUser := (primaryUser m2)[0 := 0]\<rparr>
                     in (m3\<lparr>checksum := core_blockChecksum P m3\<rparr>, s1\<lparr>memory := False\<rparr>)))
         else (m, s1))"

definition core_writeAck :: "nat \<Rightarrow> SingleApplicationPrivate \<Rightarrow> SingleApplicationPrivate" where
  "core_writeAck sock s =
     setSocket sock ((sockets s sock)\<lparr>written := written (sockets s sock) @ [10]\<rparr>) s"

definition core_readMessageHeader ::
  "nat \<Rightarrow> ConnectionStage \<Rightarrow> SingleApplicationPrivate \<Rightarrow> SingleApplicationPrivate" where
  "core_readMessageHeader sock nextStage s =
     (if connectionMap s sock = None then s
      else if bytesAvailable sock s < 8 then s
      else (case get_quint64 \<lparr>device = readBuffer (sockets s sock), statusOk = True\<rparr> of
              (len, headerStream) \<Rightarrow>
                (let s1 = setSocket sock ((sockets s sock)\<lparr>readBuffer := device headerStream\<rparr>) s
                 in case connectionMapAt sock s1 of
                      (info, s2) \<Rightarrow>
                        core_writeAck sock
                          (setConnectionInfo sock (info\<lparr>stage := nextStage, msgLen := len\<rparr>) s2))))"

definition core_isFrameComplete :: "nat \<Rightarrow> SingleApplicationPrivate \<Rightarrow> bool" where
  "core_isFrameComplete sock s =
     (if connectionMap s sock = None then False
      else (case connectionMapAt sock s of
              (info, s1) \<Rightarrow> sint (msgLen info) \<le> bytesAvailable sock s1))"

definition core_slotDataAvailable ::
  "nat \<Rightarrow> 32 word \<Rightarrow> SingleApplicationPrivate \<Rightarrow> SingleApplicationPrivate" where
  "core_slotDataAvailable dataSocket instId s =
     (if \<not> core_isFrameComplete dataSocket s then s
      else (case readAll dataSocket s of
              (message, s1) \<Rightarrow>
                (let s2 = core_writeAck dataSocket s1
                 in case connectionMapAt dataSocket s2 of
                      (info, s3) \<Rightarrow>
                        emit (receivedMessage instId message)
                          (setConnectionInfo dataSocket (info\<lparr>stage := StageConnectedHeader\<rparr>) s3))))"

definition core_slotClientConnectionClosed ::
  "nat \<Rightarrow> 32 word \<Rightarrow> SingleApplicationPrivate \<Rightarrow> SingleApplicationPrivate" where
  "core_slotClientConnectionClosed closedSocket instId s =
     (if 0 < bytesAvailable closedSocket s then core_slotDataAvailable closedSocket instId s else s)"

definition core_aboutToClose :: "nat \<Rightarrow> SingleApplicationPrivate \<Rightarrow> SingleApplicationPrivate" where
  "core_aboutToClose sock s =
     (case connectionMapAt sock s of
        (info, s1) \<Rightarrow> core_slotClientConnectionClosed sock (instanceId info) s1)"

definition core_socketClose :: "nat \<Rightarrow> SingleApplicationPrivate \<Rightarrow> SingleApplicationPrivate" where
  "core_socketClose sock s =
     (if isOpen (sockets s sock)
      then (let s1 = core_aboutToClose sock s
            in setSocket sock ((sockets s1 sock)\<lparr>readBuffer := [], isOpen := False\<rparr>) s1)
      else s)"

definition core_destroyed :: "nat \<Rightarrow> SingleApplicationPrivate \<Rightarrow> SingleApplicationPrivate" where
  "core_destroyed sock s = s\<lparr>connectionMap := (connectionMap s)(sock := None)\<rparr>"

definition core_readInitFields :: "byte list \<Rightarrow> byte list \<times> 8 word \<times> 32 word \<times> 16 word \<times> bool" where
  "core_readInitFields msgBytes =
     (case get_QByteArray \<lparr>device = msgBytes, statusOk = True\<rparr> of
        (latin1Name, d1) \<Rightarrow>
          (case get_quint8 d1 of
             (connTypeVal, d2) \<Rightarrow>
               (case get_quint32 d2 of
                  (instId, d3) \<Rightarrow>
                    (case get_quint16 d3 of
                       (msgChecksum, d4) \<Rightarrow>
                         (latin1Name, connTypeVal, instId, msgChecksum, statusOk d4)))))"

definition core_actualChecksum :: "platform \<Rightarrow> byte list \<Rightarrow> fault + 16 word" where
  "core_actualChecksum P msgBytes =
     (if length msgBytes < 2 then Inl ReadPastBuffer
      else Inr (qChecksum P
                  (take (unat (of_nat (length msgBytes - 2) :: 32 word)) msgBytes)))"

definition core_readInitMessageBody ::
  "platform \<Rightarrow> nat \<Rightarrow> SingleApplicationPrivate \<Rightarrow> fault + SingleApplicationPrivate" where
  "core_readInitMessageBody P sock s =
     (if \<not> core_isFrameComplete sock s then Inr s
      else (case readAll sock s of
              (msgBytes, s1) \<Rightarrow>
                (case core_readInitFields msgBytes of
                   (latin1Name, connTypeVal, instId, msgChecksum, streamOk) \<Rightarrow>
                     (case core_actualChecksum P msgBytes of
                        Inl f \<Rightarrow> Inl f
                      | Inr actual \<Rightarrow>
                          (let isValid = (streamOk
                                            \<and> latin1String P latin1Name = blockServerName s1
                                            \<and> msgChecksum = actual)
                           in if \<not> isValid then Inr (core_socketClose sock s1)
                              else (case connectionMapAt sock s1 of
                                      (info, s2) \<Rightarrow>
                                        (let s3 = setConnectionInfo sock
                                                    (info\<lparr>instanceId := instId,
                                                           stage := StageConnectedHeader\<rparr>) s2;
                                             s4 = (if connTypeVal = typeTag P NewInstance
                                                      \<or> (connTypeVal = typeTag P SecondaryInstance
                                                          \<and> SecondaryNotification \<in> options s3)
                                                   then emit instanceStarted s3 else s3)
                                         in Inr (core_writeAck sock s4))))))))"

definition core_readyRead ::
  "platform \<Rightarrow> nat \<Rightarrow> SingleApplicationPrivate \<Rightarrow> fault + SingleApplicationPrivate" where
  "core_readyRead P sock s =
     (case connectionMapAt sock s of
        (info, s1) \<Rightarrow>
          (case stage info of
             StageInitHeader \<Rightarrow> Inr (core_readMessageHeader sock StageInitBody s1)
           | StageInitBody \<Rightarrow> core_readInitMessageBody P sock s1
           | StageConnectedHeader \<Rightarrow> Inr (core_readMessageHeader sock StageConnectedBody s1)
           | StageConnectedBody \<Rightarrow> Inr (core_slotDataAvailable sock (instanceId info) s1)))"

definition core_slotConnectionEstablished ::
  "nat \<Rightarrow> SingleApplicationPrivate \<Rightarrow> SingleApplicationPrivate" where
  "core_slotConnectionEstablished sock s =
     setConnectionInfo sock newConnectionInfo
       (setSocket sock \<lparr>readBuffer = [], written = [], isOpen = True\<rparr> s)"

definition core_dataArrived ::
  "platform \<Rightarrow> nat \<Rightarrow> byte list \<Rightarrow> SingleApplicationPrivate
     \<Rightarrow> fault + SingleApplicationPrivate" where
  "core_dataArrived P sock chunk s =
     (if isOpen (sockets s sock) \<and> chunk \<noteq> []
      then core_readyRead P sock
             (setSocket sock
                ((sockets s sock)\<lparr>readBuffer := readBuffer (sockets s sock) @ chunk\<rparr>) s)
      else Inr s)"

definition core_genBlockServerName ::
  "platform \<Rightarrow> app_env \<Rightarrow> SingleApplicationPrivate \<Rightarrow> SingleApplicationPrivate" where
  "core_genBlockServerName P e s =
     (let d0 = map of_char ''SingleApplication'';
          d1 = d0 @ applicationName e;
          d2 = d1 @ organizationName e;
          d3 = d2 @ organizationDomain e;
          d4 = (if ExcludeAppVersion \<in> options s then d3 else d3 @ applicationVersion e);
          d5 = (if ExcludeAppPath \<in> options s then d4
                else if env_APPIMAGE e = [] then d4 @ applicationFilePath e
                else d4 @ env_APPIMAGE e);
          d6 = (if User \<in> options s then d5 @ core_getUsername e else d5)
      in s\<lparr>blockServerName := replaceByte 47 95 (toBase64 P (sha256 P d6))\<rparr>)"

definition core_socketWrite :: "platform \<Rightarrow> byte list \<Rightarrow> ClientSocket \<Rightarrow> fault + ClientSocket" where
  "core_socketWrite P msg w =
     (if sockState w = ConnectedState
      then (case core_dataArrived P (peerSocket w) msg (peer w) of
              Inl f \<Rightarrow> Inl f
            | Inr p \<Rightarrow> Inr (w\<lparr>peer := p\<rparr>))
      else Inr w)"

definition core_writeConfirmedFrame ::
  "platform \<Rightarrow> int \<Rightarrow> byte list \<Rightarrow> ClientSocket \<Rightarrow> fault + (bool \<times> ClientSocket)" where
  "core_writeConfirmedFrame P timeout msg w =
     (case core_socketWrite P msg w of
        Inl f \<Rightarrow> Inl f
      | Inr w1 \<Rightarrow>
          (case waitForReadyRead timeout w1 of
             (result, w2) \<Rightarrow>
               if result then Inr (True, socketRead 1 w2) else Inr (False, w2)))"

definition core_writeConfirmedMessage ::
  "platform \<Rightarrow> int \<Rightarrow> byte list \<Rightarrow> ClientSocket \<Rightarrow> fault + (bool \<times> ClientSocket)" where
  "core_writeConfirmedMessage P timeout msg w =
     (let header = put_quint64 (of_nat (length msg))
      in case elapsed w of
           (e1, w1) \<Rightarrow>
             (case core_writeConfirmedFrame P (timeout - e1) header w1 of
                Inl f \<Rightarrow> Inl f
              | Inr (ok, w2) \<Rightarrow>
                  if \<not> ok then Inr (False, w2)
                  else (case elapsed w2 of
                          (e2, w3) \<Rightarrow> core_writeConfirmedFrame P (timeout - e2) msg w3)))"

definition core_enterState :: "LocalSocketState \<Rightarrow> ClientSocket \<Rightarrow> ClientSocket" where
  "core_enterState st w =
     (if st = ConnectedState \<and> sockState w \<noteq> ConnectedState
      then w\<lparr>sockState := st, peer := core_slotConnectionEstablished (peerSocket w) (peer w),
             consumed := 0\<rparr>
      else w\<lparr>sockState := st\<rparr>)"

definition core_connectToServer :: "byte list \<Rightarrow> ClientSocket \<Rightarrow> ClientSocket" where
  "core_connectToServer name w =
     (let w1 = w\<lparr>tick := Suc (tick w)\<rparr>
      in case server (peer w) of
           None \<Rightarrow> core_enterState UnconnectedState w1
         | Some srv \<Rightarrow>
             if serverName srv = name then core_enterState (connectResult w (tick w)) w1
             else core_enterState UnconnectedState w1)"

definition core_waitForConnected :: "int \<Rightarrow> ClientSocket \<Rightarrow> ClientSocket" where
  "core_waitForConnected timeout w =
     core_enterState (waitConnectedResult w (tick w) timeout) (w\<lparr>tick := Suc (tick w)\<rparr>)"

definition core_randomSleep :: "ClientSocket \<Rightarrow> ClientSocket" where
  "core_randomSleep w = w\<lparr>tick := Suc (tick w)\<rparr>"

fun core_connectLoop ::
  "nat \<Rightarrow> int \<Rightarrow> byte list \<Rightarrow> ClientSocket \<Rightarrow> (bool \<times> ClientSocket) option" where
  "core_connectLoop 0 timeout name w = None"
| "core_connectLoop (Suc n) timeout name w =
     (let w1 = core_randomSleep w;
          w2 = (if sockState w1 \<noteq> ConnectingState then core_connectToServer name w1 else w1);
          w3 = (if sockState w2 = ConnectingState
                then (case elapsed w2 of (e, w') \<Rightarrow> core_waitForConnected (timeout - e) w')
                else w2)
      in if sockState w3 = ConnectedState then Some (True, w3)
         else (case elapsed w3 of
                 (e, w4) \<Rightarrow>
                   if timeout \<le> e then Some (False, w4) else core_connectLoop n timeout name w4))"

definition core_connectToPrimary ::
  "platform \<Rightarrow> nat \<Rightarrow> int \<Rightarrow> ConnectionType \<Rightarrow> SingleApplicationPrivate \<Rightarrow> ClientSocket
     \<Rightarrow> (fault + (bool \<times> SingleApplicationPrivate \<times> ClientSocket)) option" where
  "core_connectToPrimary P fuel timeout connectionType s w =
     (let w0 = (if socket s then w else w\<lparr>sockState := UnconnectedState\<rparr>);
          s1 = s\<lparr>socket := True\<rparr>
      in if sockState w0 = ConnectedState then Some (Inr (True, s1, w0))
         else (case core_connectLoop fuel timeout (blockServerName s1) w0 of
                 None \<Rightarrow> None
               | Some (connected, w1) \<Rightarrow>
                   if \<not> connected then Some (Inr (False, s1, w1))
                   else (let initMsg = put_QByteArray (blockServerName s1)
                                         @ put_quint8 (typeTag P connectionType)
                                         @ put_quint32 (instanceNumber s1);
                             checksum = qChecksum P
                               (take (unat (of_nat (length initMsg) :: 32 word)) initMsg);
                             initMsg2 = initMsg @ put_quint16 checksum
                         in case elapsed w1 of
                              (e, w2) \<Rightarrow>
                                (case core_writeConfirmedMessage P (timeout - e) initMsg2 w2 of
                                   Inl f \<Rightarrow> Some (Inl f)
                                 | Inr (result, w3) \<Rightarrow> Some (Inr (result, s1, w3))))))"

section \<open>A small platform and process for concrete runs\<close>

text \<open>
  One choice of the parameters, small enough to evaluate: an x86-64 layout of the block
  (the flag, three bytes of padding, then the counter and the process id little-endian
  and the buffer), the tags 0 to 3 in the order of the declaration, a \<^verbatim>\<open>qstrncpy\<close>
  that copies up to the first zero byte and fills the rest of the buffer with zeros, the
  view of Qt 5 that ends before the first zero byte, and stand-ins for the checksum (sum of the bytes), the hash and the encoding (the bytes
  themselves).
\<close>

fun sampleTag :: "ConnectionType \<Rightarrow> byte" where
  "sampleTag InvalidConnection = 0"
| "sampleTag NewInstance = 1"
| "sampleTag SecondaryInstance = 2"
| "sampleTag Reconnect = 3"

definition samplePlatform :: platform where
  "samplePlatform =
     \<lparr>qChecksum = (\<lambda>bs. sum_list (map ucast bs)),
      sha256 = (\<lambda>bs. bs),
      toBase64 = (\<lambda>bs. bs),
      qstrncpy = (\<lambda>dst src n.
         (let str = take (n - 1) (takeWhile (\<lambda>c. c \<noteq> 0) src)
          in str @ replicate (n - length str) 0)),
      latin1String = takeWhile (\<lambda>c. c \<noteq> 0),
      objectBytes = (\<lambda>p sec pid user.
         [if p then 1 else 0, 0, 0, 0] @ rev (be_encode 4 sec) @ rev (be_encode 8 pid) @ user),
      typeTag = sampleTag\<rparr>"

definition sampleEnv :: app_env where
  "sampleEnv =
     \<lparr>applicationName = [115, 116, 114], organizationName = [111, 114, 103],
      organizationDomain = [46, 111, 114, 103], applicationVersion = [49, 46, 48],
      applicationFilePath = [47, 117, 47, 115], env_APPIMAGE = [], env_USER = [117, 49],
      pw_name = None, applicationPid = 4242\<rparr>"

definition sampleBlock :: InstancesInfo where
  "sampleBlock =
     \<lparr>primary = False, secondary = 0, primaryPid = 0, primaryUser = replicate 8 0,
      checksum = 0\<rparr>"

definition sampleProcess :: SingleApplicationPrivate where
  "sampleProcess =
     \<lparr>options = {User}, blockServerName = [88], instanceNumber = - 1,
      memory = True, socket = False, server = None, connectionMap = Map.empty,
      sockets = (\<lambda>_. \<lparr>readBuffer = [], written = [], isOpen = False\<rparr>), emitted = []\<rparr>"

text \<open>
  A primary with one accepted socket, at address 0: the socket is open and holds
  \<open>buf\<close>, and its entry in the map is \<open>info\<close>.
\<close>

definition sampleListener :: "byte list \<Rightarrow> ConnectionInfo \<Rightarrow> SingleApplicationPrivate" where
  "sampleListener buf info =
     sampleProcess
       \<lparr>instanceNumber := 0,
        server := Some \<lparr>socketOptions = UserAccessOption, serverName = [88]\<rparr>,
        connectionMap := [0 \<mapsto> info],
        sockets := (\<lambda>_. \<lparr>readBuffer = [], written = [], isOpen = False\<rparr>)
                     (0 := \<lparr>readBuffer = buf, written = [], isOpen = True\<rparr>)\<rparr>"

text \<open>
  A secondary's socket connected to that primary, with everything the primary wrote
  already read, and surroundings in which no time passes and every answer is
  favourable.
\<close>

definition sampleSocket :: "SingleApplicationPrivate \<Rightarrow> ClientSocket" where
  "sampleSocket p =
     \<lparr>sockState = ConnectedState, peer = p, peerSocket = 0,
      consumed = length (written (sockets p 0)), tick = 0,
      elapsedAt = (\<lambda>_. 0), connectResult = (\<lambda>_. ConnectedState),
      waitConnectedResult = (\<lambda>_ _. ConnectedState), readyInTime = (\<lambda>_ _. True)\<rparr>"


section \<open>An invariant of a connection before its handshake\<close>

text \<open>
  While a connection waits for the handshake, the primary has written nothing to it
  but the acknowledgment of the handshake header, and has emitted nothing since the
  connection was accepted; \<open>name\<close> and \<open>sigs\<close> are the block name and the signals
  emitted at that time.
\<close>

definition awaitingHandshake ::
  "nat \<Rightarrow> byte list \<Rightarrow> signal list \<Rightarrow> SingleApplicationPrivate \<Rightarrow> bool" where
  "awaitingHandshake sock name sigs s =
     (case connectionMap s sock of
        None \<Rightarrow> False
      | Some info \<Rightarrow>
          blockServerName s = name \<and>
          (case stage info of
             StageInitHeader \<Rightarrow> written (sockets s sock) = [] \<and> emitted s = sigs
           | StageInitBody \<Rightarrow> written (sockets s sock) = [10] \<and> emitted s = sigs
           | StageConnectedHeader \<Rightarrow> True
           | StageConnectedBody \<Rightarrow> True))"

section \<open>Big-endian integers\<close>

lemma length_be_encode [simp]: "length (be_encode n w) = n"
  by (induction n) simp_all

lemma be_decode_encode:
  "be_decode (be_encode n (w :: 'a::len word)) = (take_bit (8 * n) w :: 'a word)"
proof (induction n)
  case 0
  show ?case by simp
next
  case (Suc n)
  have "push_bit (8 * n) (ucast (ucast (drop_bit (8 * n) w) :: byte) :: 'a word)
          OR take_bit (8 * n) w = take_bit (8 * Suc n) w"
    by (rule bit_eqI) (auto simp add: bit_simps)
  with Suc show ?case by simp
qed

lemma be_decode_put_quint64 [simp]: "be_decode (put_quint64 v) = v"
  unfolding put_quint64_def be_decode_encode by (simp add: take_bit_word_eq_self)

lemma be_decode_put_quint32 [simp]: "be_decode (put_quint32 v) = v"
  unfolding put_quint32_def be_decode_encode by (simp add: take_bit_word_eq_self)

lemma be_decode_put_quint16 [simp]: "be_decode (put_quint16 v) = v"
  unfolding put_quint16_def be_decode_encode by (simp add: take_bit_word_eq_self)

lemma be_decode_put_quint8 [simp]: "be_decode (put_quint8 v) = v"
  unfolding put_quint8_def be_decode_encode by (simp add: take_bit_word_eq_self)

lemma length_put_quint64 [simp]: "length (put_quint64 v) = 8"
  by (simp add: put_quint64_def)

lemma sint_le_unat: "sint (w :: 'a::len word) \<le> int (unat w)"
proof -
  have "- (2 ^ (LENGTH('a) - Suc 0)) \<le> (0::int)" by simp
  also have "\<dots> \<le> uint w" by simp
  finally have "signed_take_bit (LENGTH('a) - Suc 0) (uint w) \<le> uint w"
    by (simp only: signed_take_bit_int_less_eq_self_iff)
  then show ?thesis by (simp add: sint_uint)
qed

section \<open>Registration of secondaries\<close>

lemma startSecondary_secondary:
  "secondary (fst (startSecondary P m s)) = secondary m + 1"
  by (simp add: startSecondary_def Let_def)

lemma startSecondary_instanceNumber:
  "instanceNumber (snd (startSecondary P m s)) = secondary m + 1"
  by (simp add: startSecondary_def Let_def)

lemma initializeMemoryBlock_secondary:
  "secondary (initializeMemoryBlock P m) = 0"
  by (simp add: initializeMemoryBlock_def Let_def)

text \<open>
  The ordinals a run of registrations hands out are the block's counter plus 1, 2, ...,
  computed in \<^typ>\<open>32 word\<close>.
\<close>

lemma startSecondaries_ordinals:
  "map instanceNumber (snd (startSecondaries P m ss)) =
     map (\<lambda>k. secondary m + of_nat k) [1..<Suc (length ss)]"
proof (induction ss arbitrary: m)
  case Nil
  show ?case by simp
next
  case (Cons s ss)
  obtain m1 s1 where step: "startSecondary P m s = (m1, s1)"
    by (cases "startSecondary P m s")
  obtain m2 ss1 where rest: "startSecondaries P m1 ss = (m2, ss1)"
    by (cases "startSecondaries P m1 ss")
  have m1: "secondary m1 = secondary m + 1"
    using startSecondary_secondary [of P m s] step by simp
  have s1: "instanceNumber s1 = secondary m + 1"
    using startSecondary_instanceNumber [of P m s] step by simp
  have tl: "map instanceNumber ss1 =
      map (\<lambda>k. secondary m1 + of_nat k) [1..<Suc (length ss)]"
    using Cons.IH [of m1] rest by simp
  have shift: "[1..<Suc (Suc (length ss))] = 1 # map Suc [1..<Suc (length ss)]"
    by (simp add: upt_conv_Cons map_Suc_upt del: upt_Suc)
  show ?case
    by (simp only: startSecondaries.simps step rest prod.case snd_conv list.map
          length_Cons shift s1 tl m1 map_map)
       (simp add: comp_def add.assoc)
qed

lemma fresh_ordinals:
  "map instanceNumber (snd (startSecondaries P (initializeMemoryBlock P m) ss)) =
     map of_nat [1..<Suc (length ss)]"
  by (simp only: startSecondaries_ordinals initializeMemoryBlock_secondary) simp

text \<open>
  After \<open>2 ^ 32\<close> registrations on a fresh block the counter is back at zero: the last
  process gets the ordinal 0.
\<close>

lemma fresh_ordinals_wrap:
  "map (unat \<circ> instanceNumber)
     (snd (startSecondaries P (initializeMemoryBlock P m) (replicate (2 ^ 32) s)))
   \<noteq> [1..<Suc (2 ^ 32)]"
proof
  let ?n = "(2::nat) ^ 32"
  let ?os = "map instanceNumber
      (snd (startSecondaries P (initializeMemoryBlock P m) (replicate ?n s)))"
  assume eq: "map (unat \<circ> instanceNumber)
     (snd (startSecondaries P (initializeMemoryBlock P m) (replicate ?n s))) = [1..<Suc ?n]"
  have os: "?os = map (\<lambda>k. (of_nat k :: 32 word)) [1..<Suc ?n]"
    by (simp only: fresh_ordinals length_replicate)
  have ne: "[1..<Suc ?n] \<noteq> []"
    by (simp del: upt_Suc)
  have "last ?os = of_nat ?n"
    unfolding os by (subst last_map) (simp_all del: upt_Suc add: last_upt)
  then have zero: "unat (last ?os) = 0"
    by simp
  have "map unat ?os = [1..<Suc ?n]"
    using eq by simp
  then have "last (map unat ?os) = last [1..<Suc ?n]"
    by (rule arg_cong)
  moreover have "?os \<noteq> []"
    unfolding os using ne by (simp del: upt_Suc)
  ultimately have "unat (last ?os) = last [1..<Suc ?n]"
    by (simp add: last_map del: upt_Suc)
  also have "\<dots> = ?n"
    by (simp del: upt_Suc add: last_upt)
  finally show False
    using zero by simp
qed

text \<open>
  C1 (as far as the counter reaches). \<open>startSecondary\<close> adds one to
  \<open>secondary\<close>, in 32-bit arithmetic, and records the new value as the caller's
  \<open>instanceNumber\<close>; processes that register one after the other on a freshly
  initialized block, fewer than \<open>2 ^ 32\<close> of them, get the ordinals 1, 2, ..., N in
  that order (strictly increasing, hence pairwise distinct).
\<close>

theorem startSecondary_ordinals:
  "secondary (fst (startSecondary P m s)) = secondary m + 1 \<and>
   instanceNumber (snd (startSecondary P m s)) = secondary (fst (startSecondary P m s)) \<and>
   (length ss < 2 ^ 32 \<longrightarrow>
      map (unat \<circ> instanceNumber) (snd (startSecondaries P (initializeMemoryBlock P m) ss))
        = [1..<Suc (length ss)])"
proof -
  have "map (unat \<circ> instanceNumber) (snd (startSecondaries P (initializeMemoryBlock P m) ss))
        = [1..<Suc (length ss)]" if len: "length ss < 2 ^ 32"
  proof -
    have "map (unat \<circ> instanceNumber) (snd (startSecondaries P (initializeMemoryBlock P m) ss))
       = map unat (map instanceNumber (snd (startSecondaries P (initializeMemoryBlock P m) ss)))"
      by simp
    also have "\<dots> = map unat (map (\<lambda>k. (of_nat k :: 32 word)) [1..<Suc (length ss)])"
      by (simp only: fresh_ordinals)
    also have "\<dots> = map (\<lambda>k. k) [1..<Suc (length ss)]"
      unfolding map_map
    proof (rule map_cong [OF refl])
      fix k assume "k \<in> set [1..<Suc (length ss)]"
      then have "k < 2 ^ 32" using len by auto
      then show "(unat \<circ> (\<lambda>k. (of_nat k :: 32 word))) k = k"
        by (simp add: unat_of_nat)
    qed
    finally show ?thesis by simp
  qed
  then show ?thesis
    by (simp add: startSecondary_secondary startSecondary_instanceNumber)
qed

theorem startSecondary_ordinals_witness:
  "length [sampleProcess, sampleProcess, sampleProcess] < 2 ^ 32 \<and>
   map (unat \<circ> instanceNumber)
     (snd (startSecondaries samplePlatform (initializeMemoryBlock samplePlatform sampleBlock)
        [sampleProcess, sampleProcess, sampleProcess])) = [1, 2, 3]"
  using startSecondary_ordinals
    [of samplePlatform sampleBlock sampleProcess "[sampleProcess, sampleProcess, sampleProcess]"]
  by (simp add: upt_conv_Cons)

text \<open>
  The claim as written, for every N, fails at \<open>N = 2 ^ 32\<close>: the ordinals of that many
  registrations on a fresh block are not 1, ..., N.
\<close>

theorem startSecondary_ordinals_counterexample:
  "map (unat \<circ> instanceNumber)
     (snd (startSecondaries samplePlatform (initializeMemoryBlock samplePlatform sampleBlock)
        (replicate (2 ^ 32) sampleProcess)))
   \<noteq> [1..<Suc (2 ^ 32)]"
  by (rule fresh_ordinals_wrap)

section \<open>The checksum of the block\<close>

lemma blockChecksum_checksum_update [simp]:
  "blockChecksum P (m\<lparr>checksum := c\<rparr>) = blockChecksum P m"
  by (simp add: blockChecksum_def)

text \<open>
  C5. Each operation that writes the block stores, as its last write, the checksum of
  the bytes before the checksum field: after \<open>initializeMemoryBlock\<close>,
  \<open>startPrimary\<close>, \<open>startSecondary\<close> and the reset the destructor of a
  process that ran the server performs, the stored checksum is \<^verbatim>\<open>qChecksum\<close> of the
  bytes the resulting block holds before that field. A destructor that resets nothing
  leaves the block as it was.
\<close>

theorem checksum_reestablished:
  "(let b = initializeMemoryBlock P m
    in checksum b =
         qChecksum P (objectBytes P (primary b) (secondary b) (primaryPid b) (primaryUser b))) \<and>
   (let b = fst (startPrimary P e m s)
    in checksum b =
         qChecksum P (objectBytes P (primary b) (secondary b) (primaryPid b) (primaryUser b))) \<and>
   (let b = fst (startSecondary P m s)
    in checksum b =
         qChecksum P (objectBytes P (primary b) (secondary b) (primaryPid b) (primaryUser b))) \<and>
   (let b = fst (destructor P m s)
    in if memory s \<and> server s \<noteq> None
       then checksum b =
         qChecksum P (objectBytes P (primary b) (secondary b) (primaryPid b) (primaryUser b))
       else b = m)"
  by (simp add: initializeMemoryBlock_def startPrimary_def startSecondary_def destructor_def
        blockChecksum_def Let_def)

theorem checksum_reestablished_witness:
  "memory (sampleListener [] newConnectionInfo) \<and>
   server (sampleListener [] newConnectionInfo) \<noteq> None \<and>
   checksum (fst (startSecondary samplePlatform sampleBlock sampleProcess)) =
     qChecksum samplePlatform (objectBytes samplePlatform False 1 0 (replicate 8 0)) \<and>
   checksum (fst (destructor samplePlatform sampleBlock (sampleListener [] newConnectionInfo))) =
     qChecksum samplePlatform (objectBytes samplePlatform False 0 (- 1) (replicate 8 0))"
proof -
  let ?b = "fst (startSecondary samplePlatform sampleBlock sampleProcess)"
  let ?l = "sampleListener [] newConnectionInfo"
  let ?d = "fst (destructor samplePlatform sampleBlock ?l)"
  have run: "memory ?l \<and> server ?l \<noteq> None"
    by (simp add: sampleListener_def sampleProcess_def)
  have b: "checksum ?b = qChecksum samplePlatform
      (objectBytes samplePlatform (primary ?b) (secondary ?b) (primaryPid ?b) (primaryUser ?b))"
    using checksum_reestablished [of samplePlatform sampleBlock sampleEnv sampleProcess]
    unfolding Let_def by (elim conjE)
  have d: "checksum ?d = qChecksum samplePlatform
      (objectBytes samplePlatform (primary ?d) (secondary ?d) (primaryPid ?d) (primaryUser ?d))"
    using checksum_reestablished [of samplePlatform sampleBlock sampleEnv ?l] run
    unfolding Let_def by (elim conjE) simp
  have fb: "primary ?b = False" "secondary ?b = 1" "primaryPid ?b = 0"
    "primaryUser ?b = replicate 8 0"
    by (simp_all add: startSecondary_def sampleBlock_def Let_def)
  have fd: "primary ?d = False" "secondary ?d = 0" "primaryPid ?d = - 1"
    "primaryUser ?d = replicate 8 0"
    by code_simp+
  show ?thesis
    using run b d unfolding fb fd by simp
qed

section \<open>What startPrimary leaves alone\<close>

text \<open>
  C10. \<open>startPrimary\<close> writes the flag, the process id, the owner buffer and the
  checksum of the block and nothing else; \<open>secondary\<close> stays as it was, also through
  the destructor's reset, so the next secondary continues the count;
  \<open>initializeMemoryBlock\<close> is the operation that sets it to zero.
\<close>

theorem startPrimary_frame:
  "fst (startPrimary P e m s) =
     m\<lparr>primary := True, primaryPid := applicationPid e,
       primaryUser := qstrncpy P (primaryUser m) (getUsername e) (length (primaryUser m)),
       checksum := checksum (fst (startPrimary P e m s))\<rparr> \<and>
   secondary (fst (startPrimary P e m s)) = secondary m \<and>
   secondary (fst (destructor P m s)) = secondary m \<and>
   secondary (initializeMemoryBlock P m) = 0 \<and>
   instanceNumber (snd (startSecondary P (fst (startPrimary P e m s)) s')) = secondary m + 1"
  by (simp add: startPrimary_def destructor_def initializeMemoryBlock_def startSecondary_def
        Let_def)

section \<open>The listener, one event at a time\<close>

lemma connectionMapAt_Some:
  "connectionMap s sock = Some info \<Longrightarrow> connectionMapAt sock s = (info, s)"
  by (simp add: connectionMapAt_def)

lemma get_quint64_enough:
  "8 \<le> length bs \<Longrightarrow>
   get_quint64 \<lparr>device = bs, statusOk = True\<rparr> =
     (be_decode (take 8 bs), \<lparr>device = drop 8 bs, statusOk = True\<rparr>)"
  by (simp add: get_quint64_def readBlock_def)

lemma readMessageHeader_short:
  "length (readBuffer (sockets s sock)) < 8 \<Longrightarrow> readMessageHeader sock next s = s"
  by (simp add: readMessageHeader_def bytesAvailable_def)

lemma readMessageHeader_enough:
  assumes reg: "connectionMap s sock = Some info"
    and len: "8 \<le> length (readBuffer (sockets s sock))"
  shows "readMessageHeader sock next s =
     s\<lparr>sockets := (sockets s)
            (sock := (sockets s sock)
               \<lparr>readBuffer := drop 8 (readBuffer (sockets s sock)),
                written := written (sockets s sock) @ [10]\<rparr>),
        connectionMap := (connectionMap s)
            (sock \<mapsto> info\<lparr>stage := next,
                           msgLen := be_decode (take 8 (readBuffer (sockets s sock)))\<rparr>)\<rparr>"
  using reg len
  by (simp add: readMessageHeader_def bytesAvailable_def get_quint64_enough [OF len]
        setSocket_def setConnectionInfo_def writeAck_def connectionMapAt_def Let_def)

lemma isFrameComplete_registered:
  "connectionMap s sock = Some info \<Longrightarrow>
   isFrameComplete sock s = (sint (msgLen info) \<le> int (length (readBuffer (sockets s sock))))"
  by (simp add: isFrameComplete_def connectionMapAt_Some bytesAvailable_def)

lemma slotDataAvailable_complete:
  assumes reg: "connectionMap s sock = Some info"
    and complete: "sint (msgLen info) \<le> int (length (readBuffer (sockets s sock)))"
  shows "slotDataAvailable sock i s =
     s\<lparr>sockets := (sockets s)
            (sock := (sockets s sock)
               \<lparr>readBuffer := [], written := written (sockets s sock) @ [10]\<rparr>),
        connectionMap := (connectionMap s)(sock \<mapsto> info\<lparr>stage := StageConnectedHeader\<rparr>),
        emitted := emitted s @ [receivedMessage i (readBuffer (sockets s sock))]\<rparr>"
  using reg complete
  by (simp add: slotDataAvailable_def isFrameComplete_registered readAll_def setSocket_def
        writeAck_def connectionMapAt_def setConnectionInfo_def emit_def)

lemma slotDataAvailable_incomplete:
  assumes reg: "connectionMap s sock = Some info"
    and part: "\<not> sint (msgLen info) \<le> int (length (readBuffer (sockets s sock)))"
  shows "slotDataAvailable sock i s = s"
  using reg part by (simp add: slotDataAvailable_def isFrameComplete_registered)

lemma socketClose_drained:
  assumes reg: "connectionMap s sock = Some info"
    and empty: "readBuffer (sockets s sock) = []"
  shows "socketClose sock s =
     (if isOpen (sockets s sock)
      then s\<lparr>sockets := (sockets s)
                (sock := (sockets s sock)\<lparr>readBuffer := [], isOpen := False\<rparr>)\<rparr>
      else s)"
  using reg empty
  by (simp add: socketClose_def aboutToClose_def connectionMapAt_Some
        slotClientConnectionClosed_def bytesAvailable_def setSocket_def)

lemma closed_socket_update:
  "\<not> isOpen q \<Longrightarrow> q\<lparr>readBuffer := [], isOpen := False\<rparr> = q\<lparr>readBuffer := []\<rparr>"
  by (cases q) simp

lemma readInitMessageBody_incomplete:
  assumes reg: "connectionMap s sock = Some info"
    and part: "\<not> sint (msgLen info) \<le> int (length (readBuffer (sockets s sock)))"
  shows "readInitMessageBody P sock s = Inr s"
  using reg part by (simp add: readInitMessageBody_def isFrameComplete_registered)

lemma readInitMessageBody_fault:
  assumes reg: "connectionMap s sock = Some info"
    and complete: "sint (msgLen info) \<le> int (length (readBuffer (sockets s sock)))"
    and short: "length (readBuffer (sockets s sock)) < 2"
  shows "readInitMessageBody P sock s = Inl ReadPastBuffer"
  using reg complete short
  by (simp add: readInitMessageBody_def isFrameComplete_registered readAll_def
        actualChecksum_def split: prod.splits)

text \<open>
  The fault is reached from a fresh connection: a handshake header that announces a
  body of length zero, then one byte.
\<close>

lemma short_handshake_body_faults:
  "map_sum id emitted
     (dataArrivedAll samplePlatform 0 [put_quint64 0, [1]]
        (slotConnectionEstablished 0 sampleProcess)) = Inl ReadPastBuffer"
  by code_simp

text \<open>
  A complete handshake body of at least two bytes: the whole buffer is read and
  judged. It is accepted when the stream read all four fields, the name is the block's
  and the checksum is the one computed; otherwise the socket is closed and nothing else
  happens.
\<close>

lemma readInitMessageBody_complete:
  assumes reg: "connectionMap s sock = Some info"
    and complete: "sint (msgLen info) \<le> int (length (readBuffer (sockets s sock)))"
    and two: "2 \<le> length (readBuffer (sockets s sock))"
  shows "readInitMessageBody P sock s =
     Inr (case readInitFields (readBuffer (sockets s sock)) of
            (latin1Name, connTypeVal, instId, msgChecksum, streamOk) \<Rightarrow>
              if streamOk \<and> latin1String P latin1Name = blockServerName s
                 \<and> actualChecksum P (readBuffer (sockets s sock)) = Inr msgChecksum
              then s\<lparr>sockets := (sockets s)
                        (sock := (sockets s sock)
                           \<lparr>readBuffer := [], written := written (sockets s sock) @ [10]\<rparr>),
                     connectionMap := (connectionMap s)
                        (sock \<mapsto> info\<lparr>instanceId := instId, stage := StageConnectedHeader\<rparr>),
                     emitted := (if connTypeVal = typeTag P NewInstance
                                    \<or> (connTypeVal = typeTag P SecondaryInstance
                                        \<and> SecondaryNotification \<in> options s)
                                 then emitted s @ [instanceStarted] else emitted s)\<rparr>
              else s\<lparr>sockets := (sockets s)
                        (sock := (sockets s sock)\<lparr>readBuffer := [], isOpen := False\<rparr>)\<rparr>)"
proof -
  let ?buf = "readBuffer (sockets s sock)"
  let ?s1 = "setSocket sock ((sockets s sock)\<lparr>readBuffer := []\<rparr>) s"
  obtain n t i c ok where f: "readInitFields ?buf = (n, t, i, c, ok)"
    by (cases "readInitFields ?buf") auto
  have ck: "actualChecksum P ?buf =
      Inr (qChecksum P (take (unat (of_nat (length ?buf - 2) :: 32 word)) ?buf))"
    using two by (simp add: actualChecksum_def)
  have reg1: "connectionMap ?s1 sock = Some info"
    using reg by (simp add: setSocket_def)
  have close: "socketClose sock ?s1 =
      s\<lparr>sockets := (sockets s)(sock := (sockets s sock)\<lparr>readBuffer := [], isOpen := False\<rparr>)\<rparr>"
    by (subst socketClose_drained [OF reg1]) (auto simp add: setSocket_def closed_socket_update)
  show ?thesis
    using reg complete
    by (simp add: readInitMessageBody_def isFrameComplete_registered readAll_def f ck close
          connectionMapAt_Some [OF reg1] Let_def)
       (auto simp add: setSocket_def setConnectionInfo_def writeAck_def emit_def)
qed

lemma readyRead_stage:
  assumes reg: "connectionMap s sock = Some info"
  shows "readyRead P sock s =
     (case stage info of
        StageInitHeader \<Rightarrow> Inr (readMessageHeader sock StageInitBody s)
      | StageInitBody \<Rightarrow> readInitMessageBody P sock s
      | StageConnectedHeader \<Rightarrow> Inr (readMessageHeader sock StageConnectedBody s)
      | StageConnectedBody \<Rightarrow> Inr (slotDataAvailable sock (instanceId info) s))"
  by (simp add: readyRead_def connectionMapAt_Some [OF reg])

text \<open>
  C7. A connection waiting for a header (of the handshake or of a message), when
  \<open>readyRead\<close> fires: with fewer than 8 bytes buffered the state stays as it is, so
  nothing is consumed and the stage and the stored length are unchanged; with 8 bytes
  or more, exactly the first 8 leave the buffer, their big-endian value becomes the
  stored length, the stage becomes the body stage of the pair, one byte (the
  acknowledgment) is written, and nothing else changes. The value decoded is the one a
  sender encoded.
\<close>

theorem header_stage:
  assumes reg: "connectionMap s sock = Some info"
    and hdr: "stage info = StageInitHeader \<or> stage info = StageConnectedHeader"
  shows "readyRead P sock s =
     Inr (if length (readBuffer (sockets s sock)) < 8 then s
          else s\<lparr>sockets := (sockets s)
                     (sock := (sockets s sock)
                        \<lparr>readBuffer := drop 8 (readBuffer (sockets s sock)),
                         written := written (sockets s sock) @ [10]\<rparr>),
                 connectionMap := (connectionMap s)
                     (sock \<mapsto> info
                        \<lparr>stage := (if stage info = StageInitHeader then StageInitBody
                                   else StageConnectedBody),
                         msgLen := be_decode (take 8 (readBuffer (sockets s sock)))\<rparr>)\<rparr>)
     \<and> be_decode (take 8 (put_quint64 v @ rest)) = v"
proof (cases "length (readBuffer (sockets s sock)) < 8")
  case True
  then show ?thesis
    using hdr by (auto simp add: readyRead_stage [OF reg] readMessageHeader_short)
next
  case False
  then have len: "8 \<le> length (readBuffer (sockets s sock))"
    by simp
  show ?thesis
    using hdr False
    by (auto simp add: readyRead_stage [OF reg] readMessageHeader_enough [OF reg len])
qed

theorem header_stage_witness:
  "connectionMap (sampleListener (put_quint64 5 @ [9]) newConnectionInfo) 0
     = Some newConnectionInfo \<and>
   stage newConnectionInfo = StageInitHeader \<and>
   readyRead samplePlatform 0 (sampleListener (put_quint64 5 @ [9]) newConnectionInfo) =
     Inr ((sampleListener [9] (newConnectionInfo\<lparr>stage := StageInitBody, msgLen := 5\<rparr>))
            \<lparr>sockets := (sockets (sampleListener [] newConnectionInfo))
                (0 := \<lparr>readBuffer = [9], written = [10], isOpen = True\<rparr>)\<rparr>)"
proof -
  have reg: "connectionMap (sampleListener (put_quint64 5 @ [9]) newConnectionInfo) 0
      = Some newConnectionInfo"
    by (simp add: sampleListener_def)
  have hdr: "stage newConnectionInfo = StageInitHeader
      \<or> stage newConnectionInfo = StageConnectedHeader"
    by (simp add: newConnectionInfo_def)
  show ?thesis
    using header_stage [OF reg hdr, of samplePlatform 5 "[9]"] reg
    by (simp add: sampleListener_def newConnectionInfo_def)
qed

text \<open>
  C4, as the code has it. A connection waiting for a body (of the handshake or of a
  message) whose buffer holds at least the stored frame length, when \<open>readyRead\<close>
  fires: every buffered byte is read, the frame and whatever follows it, and the buffer
  is left empty. A message body is delivered whole in \<open>receivedMessage\<close>; a handshake
  body (of two bytes at least) is judged whole, and the connection moves on exactly
  when it is valid. So the bytes consumed are the stored frame length many only when no
  more than that are buffered.
\<close>

theorem body_stage_reads_all:
  assumes reg: "connectionMap s sock = Some info"
    and complete: "unat (msgLen info) \<le> length (readBuffer (sockets s sock))"
  shows "(stage info = StageConnectedBody \<longrightarrow>
      readyRead P sock s =
        Inr (s\<lparr>sockets := (sockets s)
                  (sock := (sockets s sock)
                     \<lparr>readBuffer := [], written := written (sockets s sock) @ [10]\<rparr>),
               connectionMap := (connectionMap s)
                  (sock \<mapsto> info\<lparr>stage := StageConnectedHeader\<rparr>),
               emitted := emitted s
                  @ [receivedMessage (instanceId info) (readBuffer (sockets s sock))]\<rparr>)) \<and>
     (stage info = StageInitBody \<and> 2 \<le> length (readBuffer (sockets s sock)) \<longrightarrow>
      (\<exists>s'. readyRead P sock s = Inr s' \<and> readBuffer (sockets s' sock) = [] \<and>
         connectionMap s' sock =
           Some (case readInitFields (readBuffer (sockets s sock)) of
                   (latin1Name, connTypeVal, instId, msgChecksum, streamOk) \<Rightarrow>
                     if streamOk \<and> latin1String P latin1Name = blockServerName s
                        \<and> actualChecksum P (readBuffer (sockets s sock)) = Inr msgChecksum
                     then info\<lparr>instanceId := instId, stage := StageConnectedHeader\<rparr>
                     else info)))"
proof -
  have "sint (msgLen info) \<le> int (unat (msgLen info))"
    by (rule sint_le_unat)
  with complete have sc: "sint (msgLen info) \<le> int (length (readBuffer (sockets s sock)))"
    by linarith
  show ?thesis
  proof (intro conjI impI)
    assume "stage info = StageConnectedBody"
    then show "readyRead P sock s =
        Inr (s\<lparr>sockets := (sockets s)
                  (sock := (sockets s sock)
                     \<lparr>readBuffer := [], written := written (sockets s sock) @ [10]\<rparr>),
               connectionMap := (connectionMap s)
                  (sock \<mapsto> info\<lparr>stage := StageConnectedHeader\<rparr>),
               emitted := emitted s
                  @ [receivedMessage (instanceId info) (readBuffer (sockets s sock))]\<rparr>)"
      by (simp add: readyRead_stage [OF reg] slotDataAvailable_complete [OF reg sc])
  next
    assume a: "stage info = StageInitBody \<and> 2 \<le> length (readBuffer (sockets s sock))"
    then have two: "2 \<le> length (readBuffer (sockets s sock))"
      by simp
    obtain n t i c ok where f: "readInitFields (readBuffer (sockets s sock)) = (n, t, i, c, ok)"
      by (cases "readInitFields (readBuffer (sockets s sock))") auto
    show "\<exists>s'. readyRead P sock s = Inr s' \<and> readBuffer (sockets s' sock) = [] \<and>
         connectionMap s' sock =
           Some (case readInitFields (readBuffer (sockets s sock)) of
                   (latin1Name, connTypeVal, instId, msgChecksum, streamOk) \<Rightarrow>
                     if streamOk \<and> latin1String P latin1Name = blockServerName s
                        \<and> actualChecksum P (readBuffer (sockets s sock)) = Inr msgChecksum
                     then info\<lparr>instanceId := instId, stage := StageConnectedHeader\<rparr>
                     else info)"
      using a reg
      by (simp add: readyRead_stage [OF reg] readInitMessageBody_complete [OF reg sc two] f)
  qed
qed

theorem body_stage_reads_all_witness:
  "connectionMap (sampleListener [1, 2] \<lparr>msgLen = 1, instanceId = 7, stage = StageConnectedBody\<rparr>) 0
     = Some \<lparr>msgLen = 1, instanceId = 7, stage = StageConnectedBody\<rparr> \<and>
   unat (1 :: 64 word) \<le> length [1 :: byte, 2] \<and>
   readyRead samplePlatform 0
       (sampleListener [1, 2] \<lparr>msgLen = 1, instanceId = 7, stage = StageConnectedBody\<rparr>) =
     Inr ((sampleListener [] \<lparr>msgLen = 1, instanceId = 7, stage = StageConnectedHeader\<rparr>)
            \<lparr>sockets := (sockets (sampleListener [] newConnectionInfo))
                (0 := \<lparr>readBuffer = [], written = [10], isOpen = True\<rparr>),
             emitted := [receivedMessage 7 [1, 2]]\<rparr>) \<and>
   readInitFields (put_QByteArray [88, 0] @ put_quint8 1 @ put_quint32 1 @ put_quint16 92)
     = ([88, 0], 1, 1, 92, True) \<and>
   (\<exists>s'. readyRead samplePlatform 0
           (sampleListener
              (put_QByteArray [88, 0] @ put_quint8 1 @ put_quint32 1 @ put_quint16 92)
              \<lparr>msgLen = 13, instanceId = 0, stage = StageInitBody\<rparr>) = Inr s' \<and>
         readBuffer (sockets s' 0) = [] \<and>
         connectionMap s' 0
           = Some \<lparr>msgLen = 13, instanceId = 1, stage = StageConnectedHeader\<rparr>)"
proof -
  let ?i = "\<lparr>msgLen = 1, instanceId = 7, stage = StageConnectedBody\<rparr>"
  have reg: "connectionMap (sampleListener [1, 2] ?i) 0 = Some ?i"
    by (simp add: sampleListener_def)
  have complete: "unat (msgLen ?i) \<le> length (readBuffer (sockets (sampleListener [1, 2] ?i) 0))"
    by (simp add: sampleListener_def)
  have message: "readyRead samplePlatform 0 (sampleListener [1, 2] ?i) =
     Inr ((sampleListener [] \<lparr>msgLen = 1, instanceId = 7, stage = StageConnectedHeader\<rparr>)
            \<lparr>sockets := (sockets (sampleListener [] newConnectionInfo))
                (0 := \<lparr>readBuffer = [], written = [10], isOpen = True\<rparr>),
             emitted := [receivedMessage 7 [1, 2]]\<rparr>)"
    using body_stage_reads_all [OF reg complete, of samplePlatform] reg
    by (simp add: sampleListener_def sampleProcess_def)
  let ?body = "put_QByteArray [88, 0] @ put_quint8 1 @ put_quint32 1 @ put_quint16 92"
  let ?j = "\<lparr>msgLen = 13, instanceId = 0, stage = StageInitBody\<rparr>"
  have fields: "readInitFields ?body = ([88, 0], 1, 1, 92, True)"
    by code_simp
  have sum: "actualChecksum samplePlatform ?body = Inr 92"
    by code_simp
  have len: "length ?body = 13"
    by (simp add: put_QByteArray_def put_quint32_def put_quint8_def put_quint16_def)
  have buf: "readBuffer (sockets (sampleListener ?body ?j) 0) = ?body"
    by (simp add: sampleListener_def)
  have reg': "connectionMap (sampleListener ?body ?j) 0 = Some ?j"
    by (simp add: sampleListener_def)
  have complete': "unat (msgLen ?j) \<le> length (readBuffer (sockets (sampleListener ?body ?j) 0))"
    unfolding buf len by simp
  have st: "stage ?j = StageInitBody \<and> 2 \<le> length (readBuffer (sockets (sampleListener ?body ?j) 0))"
    unfolding buf len by simp
  from body_stage_reads_all [OF reg' complete', of samplePlatform, THEN conjunct2, THEN mp, OF st]
  have "\<exists>s'. readyRead samplePlatform 0 (sampleListener ?body ?j) = Inr s' \<and>
         readBuffer (sockets s' 0) = [] \<and>
         connectionMap s' 0
           = Some \<lparr>msgLen = 13, instanceId = 1, stage = StageConnectedHeader\<rparr>"
    unfolding buf fields sum by (simp add: samplePlatform_def sampleListener_def sampleProcess_def)
  with reg message fields show ?thesis
    by simp
qed

text \<open>
  The claim as written fails where more than the frame is buffered: with a stored
  length of 1 and the two bytes 1, 2 in the buffer, the message delivered is both bytes
  and the buffer is empty afterwards; the byte after the frame is not left behind.
\<close>

theorem body_stage_reads_all_counterexample:
  "map_sum id (\<lambda>s'. (readBuffer (sockets s' 0), emitted s'))
     (readyRead samplePlatform 0
        (sampleListener [1, 2] \<lparr>msgLen = 1, instanceId = 7, stage = StageConnectedBody\<rparr>))
   = Inr ([], [receivedMessage 7 [1, 2]])"
  by (simp add: readyRead_def connectionMapAt_def sampleListener_def sampleProcess_def
        slotDataAvailable_def isFrameComplete_def bytesAvailable_def readAll_def
        setSocket_def writeAck_def setConnectionInfo_def emit_def)

section \<open>A connection from its acceptance on\<close>

lemma dataArrivedAll_append:
  "dataArrivedAll P sock (xs @ ys) s =
     (case dataArrivedAll P sock xs s of
        Inl f \<Rightarrow> Inl f
      | Inr s1 \<Rightarrow> dataArrivedAll P sock ys s1)"
  by (induction xs arbitrary: s) (simp_all split: sum.splits)

lemma dataArrived_closed:
  "\<not> isOpen (sockets s sock) \<Longrightarrow> dataArrived P sock chunk s = Inr s"
  by (simp add: dataArrived_def)

lemma dataArrivedAll_closed:
  "\<not> isOpen (sockets s sock) \<Longrightarrow> dataArrivedAll P sock chunks s = Inr s"
  by (induction chunks) (simp_all add: dataArrived_closed)

lemma awaitingHandshake_accepted:
  "awaitingHandshake sock (blockServerName p) (emitted p) (slotConnectionEstablished sock p)"
  by (simp add: awaitingHandshake_def slotConnectionEstablished_def setConnectionInfo_def
        setSocket_def newConnectionInfo_def)

lemma awaitingHandshake_readyRead:
  assumes inv: "awaitingHandshake sock name sigs s"
    and step: "readyRead P sock s = Inr s'"
  shows "awaitingHandshake sock name sigs s'"
proof -
  obtain info where reg: "connectionMap s sock = Some info"
    using inv by (auto simp add: awaitingHandshake_def split: option.splits)
  have name: "blockServerName s = name"
    using inv reg by (simp add: awaitingHandshake_def)
  show ?thesis
  proof (cases "stage info")
    case StageInitHeader
    then have w: "written (sockets s sock) = []" and e: "emitted s = sigs"
      using inv reg by (simp_all add: awaitingHandshake_def)
    show ?thesis
    proof (cases "length (readBuffer (sockets s sock)) < 8")
      case True
      then have "s' = s"
        using step StageInitHeader by (simp add: readyRead_stage [OF reg] readMessageHeader_short)
      then show ?thesis using inv by simp
    next
      case False
      then have len: "8 \<le> length (readBuffer (sockets s sock))" by simp
      have "s' = readMessageHeader sock StageInitBody s"
        using step StageInitHeader by (simp add: readyRead_stage [OF reg])
      then show ?thesis
        using w e name
        by (simp add: readMessageHeader_enough [OF reg len] awaitingHandshake_def)
    qed
  next
    case StageInitBody
    then have w: "written (sockets s sock) = [10]" and e: "emitted s = sigs"
      using inv reg by (simp_all add: awaitingHandshake_def)
    have body: "readInitMessageBody P sock s = Inr s'"
      using step StageInitBody by (simp add: readyRead_stage [OF reg])
    show ?thesis
    proof (cases "sint (msgLen info) \<le> int (length (readBuffer (sockets s sock)))")
      case False
      then have "s' = s"
        using body by (simp add: readInitMessageBody_incomplete [OF reg])
      then show ?thesis using inv by simp
    next
      case True
      have two: "2 \<le> length (readBuffer (sockets s sock))"
      proof (rule ccontr)
        assume "\<not> 2 \<le> length (readBuffer (sockets s sock))"
        then have "length (readBuffer (sockets s sock)) < 2" by simp
        from readInitMessageBody_fault [OF reg True this, of P] body show False by simp
      qed
      obtain n t i c ok where f: "readInitFields (readBuffer (sockets s sock)) = (n, t, i, c, ok)"
        by (cases "readInitFields (readBuffer (sockets s sock))") auto
      show ?thesis
        using body w e name StageInitBody reg
        by (auto simp add: readInitMessageBody_complete [OF reg True two] f
              awaitingHandshake_def split: if_splits)
    qed
  next
    case StageConnectedHeader
    have s': "s' = readMessageHeader sock StageConnectedBody s"
      using step StageConnectedHeader by (simp add: readyRead_stage [OF reg])
    show ?thesis
    proof (cases "length (readBuffer (sockets s sock)) < 8")
      case True
      then show ?thesis using inv s' by (simp add: readMessageHeader_short)
    next
      case False
      then have len: "8 \<le> length (readBuffer (sockets s sock))" by simp
      show ?thesis
        using s' name by (simp add: readMessageHeader_enough [OF reg len] awaitingHandshake_def)
    qed
  next
    case StageConnectedBody
    have s': "s' = slotDataAvailable sock (instanceId info) s"
      using step StageConnectedBody by (simp add: readyRead_stage [OF reg])
    show ?thesis
    proof (cases "sint (msgLen info) \<le> int (length (readBuffer (sockets s sock)))")
      case True
      then show ?thesis
        using s' name by (simp add: slotDataAvailable_complete [OF reg] awaitingHandshake_def)
    next
      case False
      then show ?thesis
        using s' inv by (simp add: slotDataAvailable_incomplete [OF reg])
    qed
  qed
qed

lemma awaitingHandshake_buffer:
  "awaitingHandshake sock name sigs (setSocket sock ((sockets s sock)\<lparr>readBuffer := b\<rparr>) s)
     = awaitingHandshake sock name sigs s"
  by (simp add: awaitingHandshake_def setSocket_def
        split: option.splits ConnectionStage.splits)

lemma awaitingHandshake_dataArrived:
  assumes inv: "awaitingHandshake sock name sigs s"
    and step: "dataArrived P sock chunk s = Inr s'"
  shows "awaitingHandshake sock name sigs s'"
proof (cases "isOpen (sockets s sock) \<and> chunk \<noteq> []")
  case True
  let ?s = "setSocket sock
      ((sockets s sock)\<lparr>readBuffer := readBuffer (sockets s sock) @ chunk\<rparr>) s"
  have "readyRead P sock ?s = Inr s'"
    using step True by (simp add: dataArrived_def)
  moreover have "awaitingHandshake sock name sigs ?s"
    using inv by (simp only: awaitingHandshake_buffer)
  ultimately show ?thesis
    by (rule awaitingHandshake_readyRead [rotated])
next
  case False
  then have "s' = s"
    using step by (auto simp add: dataArrived_def)
  then show ?thesis using inv by simp
qed

lemma awaitingHandshake_dataArrivedAll:
  assumes inv: "awaitingHandshake sock name sigs s"
    and run: "dataArrivedAll P sock chunks s = Inr s'"
  shows "awaitingHandshake sock name sigs s'"
  using inv run
proof (induction chunks arbitrary: s)
  case Nil
  then show ?case by simp
next
  case (Cons chunk chunks)
  from Cons.prems(2) obtain s1 where
    one: "dataArrived P sock chunk s = Inr s1" and rest: "dataArrivedAll P sock chunks s1 = Inr s'"
    by (auto split: sum.splits)
  from Cons.IH [OF awaitingHandshake_dataArrived [OF Cons.prems(1) one] rest]
  show ?case .
qed

text \<open>
  C2, as the code has it. Take a connection from its acceptance: after any chunks of
  data it waits for the handshake body, and the chunk arrives that makes
  \<open>isFrameComplete\<close> true, so that \<open>readInitMessageBody\<close> reads the body, all the
  bytes buffered (two at least). If the name read from the body, in the view
  \<^verbatim>\<open>QLatin1String\<close> makes of it, is not the primary's block name, or the checksum read
  is not the one computed over all the bytes read but the last two, then whatever
  arrives later, the only byte the primary ever writes to the connection is the
  acknowledgment of the handshake header, none for the body; the socket is closed; and
  no signal is emitted for it.
\<close>

theorem handshake_rejected:
  assumes pre: "dataArrivedAll P sock pre (slotConnectionEstablished sock p) = Inr s1"
    and reg: "connectionMap s1 sock = Some info"
    and st: "stage info = StageInitBody"
    and op: "isOpen (sockets s1 sock)"
    and chunk: "chunk \<noteq> []"
    and complete: "sint (msgLen info) \<le> int (length (readBuffer (sockets s1 sock) @ chunk))"
    and two: "2 \<le> length (readBuffer (sockets s1 sock) @ chunk)"
    and bad: "case readInitFields (readBuffer (sockets s1 sock) @ chunk) of
                (latin1Name, connTypeVal, instId, msgChecksum, streamOk) \<Rightarrow>
                  latin1String P latin1Name \<noteq> blockServerName p
                  \<or> actualChecksum P (readBuffer (sockets s1 sock) @ chunk) \<noteq> Inr msgChecksum"
  shows "\<exists>s2. dataArrivedAll P sock (pre @ chunk # post) (slotConnectionEstablished sock p)
            = Inr s2
          \<and> written (sockets s2 sock) = [10]
          \<and> \<not> isOpen (sockets s2 sock)
          \<and> emitted s2 = emitted p"
proof -
  let ?body = "readBuffer (sockets s1 sock) @ chunk"
  let ?s = "setSocket sock ((sockets s1 sock)\<lparr>readBuffer := ?body\<rparr>) s1"
  let ?s2 = "?s\<lparr>sockets := (sockets ?s)
      (sock := (sockets ?s sock)\<lparr>readBuffer := [], isOpen := False\<rparr>)\<rparr>"
  have inv: "awaitingHandshake sock (blockServerName p) (emitted p) s1"
    by (rule awaitingHandshake_dataArrivedAll [OF awaitingHandshake_accepted pre])
  have w: "written (sockets s1 sock) = [10]" and e: "emitted s1 = emitted p"
    and name: "blockServerName s1 = blockServerName p"
    using inv reg st by (simp_all add: awaitingHandshake_def)
  have reg': "connectionMap ?s sock = Some info"
    using reg by (simp add: setSocket_def)
  have buf: "readBuffer (sockets ?s sock) = ?body"
    by (simp add: setSocket_def)
  have sc: "sint (msgLen info) \<le> int (length (readBuffer (sockets ?s sock)))"
    unfolding buf by (rule complete)
  have two': "2 \<le> length (readBuffer (sockets ?s sock))"
    unfolding buf by (rule two)
  obtain n t i c ok where f: "readInitFields ?body = (n, t, i, c, ok)"
    by (cases "readInitFields ?body") auto
  have invalid: "\<not> (ok \<and> latin1String P n = blockServerName ?s \<and> actualChecksum P ?body = Inr c)"
    using bad name by (auto simp add: f setSocket_def)
  have "readInitMessageBody P sock ?s = Inr ?s2"
    by (simp only: readInitMessageBody_complete [OF reg' sc two'] buf f prod.case
          if_not_P [OF invalid])
  then have "readyRead P sock ?s = Inr ?s2"
    using st by (simp add: readyRead_stage [OF reg'])
  then have one: "dataArrived P sock chunk s1 = Inr ?s2"
    using op chunk by (simp add: dataArrived_def)
  have closed: "\<not> isOpen (sockets ?s2 sock)"
    by simp
  have "dataArrivedAll P sock (pre @ chunk # post) (slotConnectionEstablished sock p) = Inr ?s2"
    by (simp add: dataArrivedAll_append pre one dataArrivedAll_closed [OF closed])
  moreover have "written (sockets ?s2 sock) = [10]"
    using w by (simp add: setSocket_def)
  moreover have "emitted ?s2 = emitted p"
    using e by (simp add: setSocket_def)
  ultimately show ?thesis
    using closed by blast
qed

theorem handshake_rejected_witness:
  "readInitFields (put_QByteArray [89] @ put_quint8 1 @ put_quint32 1 @ put_quint16 0)
     = ([89], 1, 1, 0, True) \<and>
   blockServerName sampleProcess = [88] \<and>
   (\<exists>s2. dataArrivedAll samplePlatform 0
            ([put_quint64 12]
               @ (put_QByteArray [89] @ put_quint8 1 @ put_quint32 1 @ put_quint16 0)
               # [[1, 2, 3]])
            (slotConnectionEstablished 0 sampleProcess) = Inr s2
        \<and> written (sockets s2 0) = [10] \<and> \<not> isOpen (sockets s2 0) \<and> emitted s2 = [])"
proof -
  let ?body = "put_QByteArray [89] @ put_quint8 1 @ put_quint32 1 @ put_quint16 0"
  let ?info = "\<lparr>msgLen = 12, instanceId = 0, stage = StageInitBody\<rparr>"
  let ?s1 = "sampleProcess
      \<lparr>connectionMap := [0 \<mapsto> ?info],
       sockets := (sockets sampleProcess)(0 := \<lparr>readBuffer = [], written = [10], isOpen = True\<rparr>)\<rparr>"
  have fields: "readInitFields ?body = ([89], 1, 1, 0, True)"
    by code_simp
  have hdr: "put_quint64 12 \<noteq> []"
  proof
    assume "put_quint64 12 = []"
    then have "length (put_quint64 12) = 0" by (simp only: list.size)
    then show False by simp
  qed
  have pre: "dataArrivedAll samplePlatform 0 [put_quint64 12]
      (slotConnectionEstablished 0 sampleProcess) = Inr ?s1"
    by (simp add: dataArrived_def slotConnectionEstablished_def setConnectionInfo_def
          setSocket_def newConnectionInfo_def readyRead_def connectionMapAt_def
          readMessageHeader_def bytesAvailable_def get_quint64_enough writeAck_def
          sampleProcess_def hdr)
  have reg: "connectionMap ?s1 0 = Some ?info"
    by simp
  have st: "stage ?info = StageInitBody"
    by simp
  have op: "isOpen (sockets ?s1 0)"
    by simp
  have chunk: "?body \<noteq> []"
    by (simp add: put_QByteArray_def put_quint32_def)
  have buf: "readBuffer (sockets ?s1 0) @ ?body = ?body"
    by simp
  have len: "length ?body = 12"
    by (simp add: put_QByteArray_def put_quint32_def put_quint8_def put_quint16_def)
  have complete: "sint (msgLen ?info) \<le> int (length (readBuffer (sockets ?s1 0) @ ?body))"
    unfolding buf len by simp
  have two: "2 \<le> length (readBuffer (sockets ?s1 0) @ ?body)"
    unfolding buf len by simp
  have bad: "case readInitFields (readBuffer (sockets ?s1 0) @ ?body) of
      (latin1Name, connTypeVal, instId, msgChecksum, streamOk) \<Rightarrow>
        latin1String samplePlatform latin1Name \<noteq> blockServerName sampleProcess
        \<or> actualChecksum samplePlatform (readBuffer (sockets ?s1 0) @ ?body) \<noteq> Inr msgChecksum"
    unfolding buf fields by (simp add: sampleProcess_def samplePlatform_def)
  have "emitted sampleProcess = []" "blockServerName sampleProcess = [88]"
    by (simp_all add: sampleProcess_def)
  with handshake_rejected [OF pre reg st op chunk complete two bad, of "[[1, 2, 3]]"] fields
  show ?thesis
    by simp
qed

text \<open>
  The claim as written fails in four ways, each on the sample platform with a primary
  whose block is \<open>X\<close>. First, a rejected handshake has received one acknowledgment
  byte, not none: the 8-byte header was acknowledged before the body (which names the
  block \<open>Y\<close>) could be judged. Second, when header and body arrive in one chunk,
  \<open>readyRead\<close> fires once and reads the header only; when the socket is closed
  with nothing more arrived, \<open>aboutToClose\<close> hands the buffered body, never judged,
  to \<open>slotDataAvailable\<close>, which acknowledges it and emits it in
  \<open>receivedMessage\<close>. Third, the name
  \<open>X\<close> followed by a zero byte is not the block name, yet its view ends before the
  zero byte and the handshake is accepted. Fourth, a body whose checksum field (256) is
  not the checksum of its name, type and instance id (91) is accepted when three more
  bytes follow it, because the checksum is computed over all the bytes read but the
  last two.
\<close>

theorem handshake_rejected_counterexample:
  "map_sum id (\<lambda>s. (written (sockets s 0), isOpen (sockets s 0), emitted s))
     (dataArrivedAll samplePlatform 0
        [put_quint64 12, put_QByteArray [89] @ put_quint8 1 @ put_quint32 1 @ put_quint16 0]
        (slotConnectionEstablished 0 sampleProcess))
   = Inr ([10], False, []) \<and>
   map_sum id (\<lambda>s. (written (sockets (aboutToClose 0 s) 0), emitted (aboutToClose 0 s)))
     (dataArrivedAll samplePlatform 0
        [put_quint64 12 @ put_QByteArray [89] @ put_quint8 1 @ put_quint32 1 @ put_quint16 0]
        (slotConnectionEstablished 0 sampleProcess))
   = Inr ([10, 10], [receivedMessage 0 [0, 0, 0, 1, 89, 1, 0, 0, 0, 1, 0, 0]]) \<and>
   map_sum id (\<lambda>s. (written (sockets s 0), isOpen (sockets s 0), emitted s))
     (dataArrivedAll samplePlatform 0
        [put_quint64 13, put_QByteArray [88, 0] @ put_quint8 1 @ put_quint32 1 @ put_quint16 92]
        (slotConnectionEstablished 0 sampleProcess))
   = Inr ([10, 10], True, [instanceStarted]) \<and>
   map_sum id (\<lambda>s. (written (sockets s 0), isOpen (sockets s 0), emitted s))
     (dataArrivedAll samplePlatform 0
        [put_quint64 15,
         put_QByteArray [88] @ put_quint8 1 @ put_quint32 1 @ put_quint16 256 @ [164, 0, 0]]
        (slotConnectionEstablished 0 sampleProcess))
   = Inr ([10, 10], True, [instanceStarted]) \<and>
   qChecksum samplePlatform (put_QByteArray [88] @ put_quint8 1 @ put_quint32 1) = 91"
  by code_simp

section \<open>A message frame from the secondary to the primary\<close>

lemma put_quint64_not_Nil [simp]: "put_quint64 v \<noteq> []"
proof
  assume "put_quint64 v = []"
  then have "length (put_quint64 v) = 0" by (simp only: list.size)
  then show False by simp
qed

lemma sint_of_nat_le: "sint (of_nat n :: 64 word) \<le> int n"
proof -
  have "sint (of_nat n :: 64 word) \<le> int (unat (of_nat n :: 64 word))"
    by (rule sint_le_unat)
  also have "\<dots> \<le> int n"
    by (simp add: unat_of_nat)
  finally show ?thesis .
qed

text \<open>
  What the primary does with the header of a message frame, and then with its
  (non-empty) body, when it waits for a message header with an empty buffer.
\<close>

lemma header_arrives:
  assumes reg: "connectionMap p k = Some info"
    and st: "stage info = StageConnectedHeader"
    and op: "isOpen (sockets p k)"
    and drained: "readBuffer (sockets p k) = []"
  shows "dataArrived P k (put_quint64 v) p =
     Inr (p\<lparr>sockets := (sockets p)
               (k := (sockets p k)\<lparr>readBuffer := [], written := written (sockets p k) @ [10]\<rparr>),
            connectionMap := (connectionMap p)
               (k \<mapsto> info\<lparr>stage := StageConnectedBody, msgLen := v\<rparr>)\<rparr>)"
proof -
  let ?p0 = "setSocket k ((sockets p k)\<lparr>readBuffer := readBuffer (sockets p k) @ put_quint64 v\<rparr>) p"
  have reg0: "connectionMap ?p0 k = Some info"
    using reg by (simp add: setSocket_def)
  have len0: "8 \<le> length (readBuffer (sockets ?p0 k))"
    by (simp add: setSocket_def)
  have "dataArrived P k (put_quint64 v) p = readyRead P k ?p0"
    using op by (simp add: dataArrived_def)
  also have "\<dots> = Inr (readMessageHeader k StageConnectedBody ?p0)"
    using st by (simp add: readyRead_stage [OF reg0])
  also have "readMessageHeader k StageConnectedBody ?p0 =
      p\<lparr>sockets := (sockets p)
               (k := (sockets p k)\<lparr>readBuffer := [], written := written (sockets p k) @ [10]\<rparr>),
        connectionMap := (connectionMap p)
               (k \<mapsto> info\<lparr>stage := StageConnectedBody, msgLen := v\<rparr>)\<rparr>"
    unfolding readMessageHeader_enough [OF reg0 len0]
    using drained by (simp add: setSocket_def)
  finally show ?thesis .
qed

lemma body_arrives:
  assumes reg: "connectionMap p k = Some info"
    and st: "stage info = StageConnectedBody"
    and len: "msgLen info = of_nat (length msg)"
    and op: "isOpen (sockets p k)"
    and drained: "readBuffer (sockets p k) = []"
    and nonempty: "msg \<noteq> []"
  shows "dataArrived P k msg p =
     Inr (p\<lparr>sockets := (sockets p)
               (k := (sockets p k)\<lparr>readBuffer := [], written := written (sockets p k) @ [10]\<rparr>),
            connectionMap := (connectionMap p)(k \<mapsto> info\<lparr>stage := StageConnectedHeader\<rparr>),
            emitted := emitted p @ [receivedMessage (instanceId info) msg]\<rparr>)"
proof -
  let ?p0 = "setSocket k ((sockets p k)\<lparr>readBuffer := readBuffer (sockets p k) @ msg\<rparr>) p"
  have reg0: "connectionMap ?p0 k = Some info"
    using reg by (simp add: setSocket_def)
  have complete: "sint (msgLen info) \<le> int (length (readBuffer (sockets ?p0 k)))"
    using drained sint_of_nat_le [of "length msg"] by (simp add: setSocket_def len)
  have "dataArrived P k msg p = readyRead P k ?p0"
    using op nonempty by (simp add: dataArrived_def)
  also have "\<dots> = Inr (slotDataAvailable k (instanceId info) ?p0)"
    using st by (simp add: readyRead_stage [OF reg0])
  also have "slotDataAvailable k (instanceId info) ?p0 =
      p\<lparr>sockets := (sockets p)
               (k := (sockets p k)\<lparr>readBuffer := [], written := written (sockets p k) @ [10]\<rparr>),
        connectionMap := (connectionMap p)(k \<mapsto> info\<lparr>stage := StageConnectedHeader\<rparr>),
        emitted := emitted p @ [receivedMessage (instanceId info) msg]\<rparr>"
    unfolding slotDataAvailable_complete [OF reg0 complete]
    using drained by (simp add: setSocket_def)
  finally show ?thesis .
qed

text \<open>
  The round trip of a non-empty message. The secondary's socket is connected, the
  primary waits for a message header on an open socket with nothing buffered, and the
  secondary has read all the primary wrote. Then \<open>writeConfirmedMessage\<close> does not
  fault; the primary emits \<open>receivedMessage\<close> with the connection's instance id and
  exactly the bytes of the message, once, if the acknowledgment of the header came in
  time, and emits nothing otherwise; and the result is true exactly when both
  acknowledgments came in time.
\<close>

lemma message_roundtrip:
  assumes conn: "sockState w = ConnectedState"
    and reg: "connectionMap (peer w) (peerSocket w) = Some info"
    and st: "stage info = StageConnectedHeader"
    and op: "isOpen (sockets (peer w) (peerSocket w))"
    and drained: "readBuffer (sockets (peer w) (peerSocket w)) = []"
    and allread: "consumed w = length (written (sockets (peer w) (peerSocket w)))"
    and nonempty: "msg \<noteq> []"
  shows "\<exists>w'. writeConfirmedMessage P timeout msg w =
            Inr (readyInTime w (Suc (tick w)) (timeout - elapsedAt w (tick w))
                 \<and> readyInTime w (Suc (Suc (Suc (tick w))))
                      (timeout - elapsedAt w (Suc (Suc (tick w)))), w')
          \<and> emitted (peer w') =
              (if readyInTime w (Suc (tick w)) (timeout - elapsedAt w (tick w))
               then emitted (peer w) @ [receivedMessage (instanceId info) msg]
               else emitted (peer w))"
proof -
  let ?k = "peerSocket w"
  let ?p = "peer w"
  let ?a1 = "readyInTime w (Suc (tick w)) (timeout - elapsedAt w (tick w))"
  let ?a2 = "readyInTime w (Suc (Suc (Suc (tick w)))) (timeout - elapsedAt w (Suc (Suc (tick w))))"
  let ?info1 = "info\<lparr>stage := StageConnectedBody, msgLen := of_nat (length msg)\<rparr>"
  let ?p1 = "?p\<lparr>sockets := (sockets ?p)
               (?k := (sockets ?p ?k)\<lparr>readBuffer := [], written := written (sockets ?p ?k) @ [10]\<rparr>),
            connectionMap := (connectionMap ?p)(?k \<mapsto> ?info1)\<rparr>"
  let ?w1 = "w\<lparr>tick := Suc (tick w)\<rparr>"
  let ?w2 = "w\<lparr>tick := Suc (Suc (tick w)), peer := ?p1\<rparr>"
  have h: "dataArrived P ?k (put_quint64 (of_nat (length msg))) ?p = Inr ?p1"
    by (rule header_arrives [OF reg st op drained])
  have frame1: "writeConfirmedFrame P (timeout - elapsedAt w (tick w))
      (put_quint64 (of_nat (length msg))) ?w1 =
      Inr (?a1, if ?a1 then ?w2\<lparr>consumed := Suc (consumed w)\<rparr> else ?w2)"
    using conn allread
    by (simp add: writeConfirmedFrame_def socketWrite_def h waitForReadyRead_def unread_def
          socketRead_def)
  show ?thesis
  proof (cases ?a1)
    case False
    then show ?thesis
      by (simp add: writeConfirmedMessage_def elapsed_def frame1 Let_def)
  next
    case True
    let ?w3 = "?w2\<lparr>consumed := Suc (consumed w), tick := Suc (Suc (Suc (tick w)))\<rparr>"
    have reg1: "connectionMap ?p1 ?k = Some ?info1"
      by simp
    have b: "dataArrived P ?k msg ?p1 =
        Inr (?p1\<lparr>sockets := (sockets ?p1)
               (?k := (sockets ?p1 ?k)
                  \<lparr>readBuffer := [], written := written (sockets ?p1 ?k) @ [10]\<rparr>),
            connectionMap := (connectionMap ?p1)(?k \<mapsto> ?info1\<lparr>stage := StageConnectedHeader\<rparr>),
            emitted := emitted ?p1 @ [receivedMessage (instanceId ?info1) msg]\<rparr>)"
      using op by (intro body_arrives [OF reg1 _ _ _ _ nonempty]) simp_all
    have frame2: "\<exists>w'. writeConfirmedFrame P (timeout - elapsedAt w (Suc (Suc (tick w)))) msg ?w3
        = Inr (?a2, w')
        \<and> emitted (peer w') = emitted ?p @ [receivedMessage (instanceId info) msg]"
      using conn allread
      by (simp add: writeConfirmedFrame_def socketWrite_def b waitForReadyRead_def unread_def
            socketRead_def)
    then obtain w' where
      f2: "writeConfirmedFrame P (timeout - elapsedAt w (Suc (Suc (tick w)))) msg ?w3 = Inr (?a2, w')"
      and e2: "emitted (peer w') = emitted ?p @ [receivedMessage (instanceId info) msg]"
      by blast
    have "writeConfirmedMessage P timeout msg w = Inr (?a2, w')"
      using True f2 by (simp add: writeConfirmedMessage_def elapsed_def frame1 Let_def)
    with True e2 show ?thesis
      by simp
  qed
qed

text \<open>
  An empty message. The header, with length zero, is acknowledged and the primary
  waits for the body; the body is no bytes, so nothing arrives and nothing wakes the
  primary: no \<open>receivedMessage\<close> is emitted, the second acknowledgment never comes, and
  the result is false whatever the surroundings answer.
\<close>

lemma empty_message_lost:
  assumes conn: "sockState w = ConnectedState"
    and reg: "connectionMap (peer w) (peerSocket w) = Some info"
    and st: "stage info = StageConnectedHeader"
    and op: "isOpen (sockets (peer w) (peerSocket w))"
    and drained: "readBuffer (sockets (peer w) (peerSocket w)) = []"
    and allread: "consumed w = length (written (sockets (peer w) (peerSocket w)))"
  shows "\<exists>w'. writeConfirmedMessage P timeout [] w = Inr (False, w')
          \<and> emitted (peer w') = emitted (peer w)
          \<and> connectionMap (peer w') (peerSocket w) =
              Some (info\<lparr>stage := StageConnectedBody, msgLen := 0\<rparr>)"
proof -
  let ?k = "peerSocket w"
  let ?p = "peer w"
  let ?a1 = "readyInTime w (Suc (tick w)) (timeout - elapsedAt w (tick w))"
  let ?info1 = "info\<lparr>stage := StageConnectedBody, msgLen := 0\<rparr>"
  let ?p1 = "?p\<lparr>sockets := (sockets ?p)
               (?k := (sockets ?p ?k)\<lparr>readBuffer := [], written := written (sockets ?p ?k) @ [10]\<rparr>),
            connectionMap := (connectionMap ?p)(?k \<mapsto> ?info1)\<rparr>"
  let ?w1 = "w\<lparr>tick := Suc (tick w)\<rparr>"
  let ?w2 = "w\<lparr>tick := Suc (Suc (tick w)), peer := ?p1\<rparr>"
  have h: "dataArrived P ?k (put_quint64 0) ?p = Inr ?p1"
    by (rule header_arrives [OF reg st op drained])
  have frame1: "writeConfirmedFrame P (timeout - elapsedAt w (tick w)) (put_quint64 0) ?w1 =
      Inr (?a1, if ?a1 then ?w2\<lparr>consumed := Suc (consumed w)\<rparr> else ?w2)"
    using conn allread
    by (simp add: writeConfirmedFrame_def socketWrite_def h waitForReadyRead_def unread_def
          socketRead_def)
  show ?thesis
  proof (cases ?a1)
    case False
    then show ?thesis
      by (simp add: writeConfirmedMessage_def elapsed_def frame1 Let_def)
  next
    case True
    let ?w3 = "?w2\<lparr>consumed := Suc (consumed w), tick := Suc (Suc (Suc (tick w)))\<rparr>"
    have frame2: "writeConfirmedFrame P (timeout - elapsedAt w (Suc (Suc (tick w)))) [] ?w3 =
        Inr (False, ?w3\<lparr>tick := Suc (Suc (Suc (Suc (tick w))))\<rparr>)"
      using conn allread
      by (simp add: writeConfirmedFrame_def socketWrite_def dataArrived_def
            waitForReadyRead_def unread_def)
    show ?thesis
      using True frame2 by (simp add: writeConfirmedMessage_def elapsed_def frame1 Let_def)
  qed
qed

text \<open>
  C8 at a payload of length zero, evaluated: a connected secondary with instance id 1
  sends the empty message with a budget of 30 seconds to a primary that answers at
  once. The call returns false, the primary has emitted nothing, and the connection
  is left waiting for a message body.
\<close>

theorem empty_message_not_delivered:
  "map_sum id
     (\<lambda>(result, w'). (result, emitted (peer w'), map_option stage (connectionMap (peer w') 0)))
     (writeConfirmedMessage samplePlatform 30000 []
        (sampleSocket
           (sampleListener [] \<lparr>msgLen = 0, instanceId = 1, stage = StageConnectedHeader\<rparr>)))
   = Inr (False, [], Some StageConnectedBody)"
  by code_simp

text \<open>The same secondary sending the five bytes of \<^verbatim>\<open>hello\<close>: delivered, and true.\<close>

lemma hello_delivered:
  "map_sum id
     (\<lambda>(result, w'). (result, emitted (peer w'), map_option stage (connectionMap (peer w') 0)))
     (writeConfirmedMessage samplePlatform 30000 [104, 101, 108, 108, 111]
        (sampleSocket
           (sampleListener [] \<lparr>msgLen = 0, instanceId = 1, stage = StageConnectedHeader\<rparr>)))
   = Inr (True, [receivedMessage 1 [104, 101, 108, 108, 111]], Some StageConnectedHeader)"
  by code_simp

section \<open>The name of the block\<close>

lemma replaceByte_absent: "before \<noteq> after \<Longrightarrow> before \<notin> set (replaceByte before after bs)"
  by (auto simp add: replaceByte_def)

text \<open>
  C6. The name \<open>genBlockServerName\<close> stores depends on nothing but the application
  name, the organization name and domain, the application version, the application
  file path, the value of \<^verbatim>\<open>APPIMAGE\<close>, the user name \<open>getUsername\<close> finds and the
  option flags: two processes that agree on these get the same name, whatever else
  their surroundings and their state hold. The name has no \<^verbatim>\<open>/\<close> (byte 47) in it.
\<close>

theorem genBlockServerName_deterministic:
  assumes "applicationName e1 = applicationName e2"
    and "organizationName e1 = organizationName e2"
    and "organizationDomain e1 = organizationDomain e2"
    and "applicationVersion e1 = applicationVersion e2"
    and "applicationFilePath e1 = applicationFilePath e2"
    and "env_APPIMAGE e1 = env_APPIMAGE e2"
    and "getUsername e1 = getUsername e2"
    and "options s1 = options s2"
  shows "blockServerName (genBlockServerName P e1 s1) = blockServerName (genBlockServerName P e2 s2)
     \<and> 47 \<notin> set (blockServerName (genBlockServerName P e1 s1))"
  using assms by (simp add: genBlockServerName_def Let_def replaceByte_absent)

theorem genBlockServerName_deterministic_witness:
  "getUsername sampleEnv = getUsername (sampleEnv\<lparr>env_USER := [], pw_name := Some [117, 49],
      applicationPid := 7\<rparr>) \<and>
   blockServerName (genBlockServerName samplePlatform sampleEnv sampleProcess) =
     blockServerName (genBlockServerName samplePlatform
       (sampleEnv\<lparr>env_USER := [], pw_name := Some [117, 49], applicationPid := 7\<rparr>)
       (sampleProcess\<lparr>instanceNumber := 3, socket := True\<rparr>)) \<and>
   blockServerName (genBlockServerName samplePlatform sampleEnv sampleProcess) =
     map of_char ''SingleApplicationstrorg.org1.0_u_su1'' \<and>
   47 \<notin> set (blockServerName (genBlockServerName samplePlatform sampleEnv sampleProcess))"
proof -
  let ?e2 = "sampleEnv\<lparr>env_USER := [], pw_name := Some [117, 49], applicationPid := 7\<rparr>"
  let ?s2 = "sampleProcess\<lparr>instanceNumber := 3, socket := True\<rparr>"
  have user: "getUsername sampleEnv = getUsername ?e2"
    by (simp add: getUsername_def sampleEnv_def)
  have token: "blockServerName (genBlockServerName samplePlatform sampleEnv sampleProcess) =
      map of_char ''SingleApplicationstrorg.org1.0_u_su1''"
    by code_simp
  have same: "applicationName sampleEnv = applicationName ?e2"
    "organizationName sampleEnv = organizationName ?e2"
    "organizationDomain sampleEnv = organizationDomain ?e2"
    "applicationVersion sampleEnv = applicationVersion ?e2"
    "applicationFilePath sampleEnv = applicationFilePath ?e2"
    "env_APPIMAGE sampleEnv = env_APPIMAGE ?e2"
    "options sampleProcess = options ?s2"
    by simp_all
  note r = genBlockServerName_deterministic
    [OF same(1) same(2) same(3) same(4) same(5) same(6) user same(7), of samplePlatform]
  from r have a: "blockServerName (genBlockServerName samplePlatform sampleEnv sampleProcess) =
      blockServerName (genBlockServerName samplePlatform ?e2 ?s2)"
    by (rule conjunct1)
  from r have b: "47 \<notin> set (blockServerName
      (genBlockServerName samplePlatform sampleEnv sampleProcess))"
    by (rule conjunct2)
  show ?thesis
    by (intro conjI user a token b)
qed

section \<open>The handshake a secondary builds is read back field by field\<close>

lemma readBlock_prefix:
  "length bs = n \<Longrightarrow>
   readBlock n \<lparr>device = bs @ rest, statusOk = ok\<rparr> = (Some bs, \<lparr>device = rest, statusOk = ok\<rparr>)"
  by (simp add: readBlock_def)

lemma get_quint8_put:
  "get_quint8 \<lparr>device = put_quint8 v @ rest, statusOk = ok\<rparr> = (v, \<lparr>device = rest, statusOk = ok\<rparr>)"
proof -
  have "length (put_quint8 v) = 1" by (simp add: put_quint8_def)
  from readBlock_prefix [OF this] show ?thesis by (simp add: get_quint8_def)
qed

lemma get_quint16_put:
  "get_quint16 \<lparr>device = put_quint16 v @ rest, statusOk = ok\<rparr> = (v, \<lparr>device = rest, statusOk = ok\<rparr>)"
proof -
  have "length (put_quint16 v) = 2" by (simp add: put_quint16_def)
  from readBlock_prefix [OF this] show ?thesis by (simp add: get_quint16_def)
qed

lemma get_quint32_put:
  "get_quint32 \<lparr>device = put_quint32 v @ rest, statusOk = ok\<rparr> = (v, \<lparr>device = rest, statusOk = ok\<rparr>)"
proof -
  have "length (put_quint32 v) = 4" by (simp add: put_quint32_def)
  from readBlock_prefix [OF this] show ?thesis by (simp add: get_quint32_def)
qed

lemma get_QByteArray_put:
  assumes "length bs < 2 ^ 32 - 1"
  shows "get_QByteArray \<lparr>device = put_QByteArray bs @ rest, statusOk = ok\<rparr> =
     (bs, \<lparr>device = rest, statusOk = ok\<rparr>)"
proof -
  have u: "unat (of_nat (length bs) :: 32 word) = length bs"
    using assms by (simp add: unat_of_nat)
  have "unat (of_nat (length bs) :: 32 word) \<noteq> unat (0xFFFFFFFF :: 32 word)"
    unfolding u using assms by simp
  then have ne: "(of_nat (length bs) :: 32 word) \<noteq> 0xFFFFFFFF"
    by auto
  show ?thesis
    using ne
    by (simp add: get_QByteArray_def put_QByteArray_def get_quint32_put u
          readBlock_prefix [OF refl])
qed

text \<open>
  The four fields \<open>connectToPrimary\<close> writes come back from \<open>readInitFields\<close> as
  written, with the stream's status still \<open>Ok\<close>.
\<close>

lemma readInitFields_written:
  assumes "length name < 2 ^ 32 - 1"
  shows "readInitFields (put_QByteArray name @ put_quint8 t @ put_quint32 i @ put_quint16 c)
     = (name, t, i, c, True)"
  using get_quint16_put [of c "[]" True]
  by (simp add: readInitFields_def get_QByteArray_put [OF assms] get_quint8_put get_quint32_put)

section \<open>A launch, end to end\<close>

text \<open>
  The scenario of the specification on the sample platform: a first process starts
  as primary, a second registers as secondary (ordinal 1) and connects with
  \<open>NewInstance\<close>. The connection succeeds in the first round, the handshake is
  acknowledged, the primary has emitted \<open>instanceStarted\<close> once and holds the
  connection with instance id 1, waiting for a message header.
\<close>

lemma launch_scenario:
  "(case startPrimary samplePlatform sampleEnv
          (initializeMemoryBlock samplePlatform sampleBlock) sampleProcess of
      (block1, primaryProcess) \<Rightarrow>
        (case startSecondary samplePlatform block1 sampleProcess of
           (block2, secondaryProcess) \<Rightarrow>
             map_option
               (map_sum id
                  (\<lambda>(result, s', w').
                     (result, instanceNumber s', emitted (peer w'),
                      connectionMap (peer w') 0, written (sockets (peer w') 0))))
               (connectToPrimary samplePlatform 3 1000 NewInstance secondaryProcess
                  ((sampleSocket primaryProcess)\<lparr>sockState := UnconnectedState\<rparr>))))
   = Some (Inr (True, 1, [instanceStarted],
        Some \<lparr>msgLen = 12, instanceId = 1, stage = StageConnectedHeader\<rparr>, [10, 10]))"
  by code_simp

section \<open>The budget of a connection attempt\<close>















text \<open>
  The loop leaves the clock and the answers to the waits for bytes as they are. So a
  call of \<open>connectToPrimary\<close> that connects gives \<open>writeConfirmedMessage\<close> its
  timeout less the elapsed time read after the loop, and that in turn gives its two
  waits what it got less the elapsed time it reads itself.
\<close>

lemma enterState_clock [simp]:
  "tick (enterState st w) = tick w" "elapsedAt (enterState st w) = elapsedAt w"
  "readyInTime (enterState st w) = readyInTime w"
  by (simp_all add: enterState_def)






section \<open>The two copies agree\<close>

text \<open>
  Each function of \<^verbatim>\<open>SingleCoreApplicationPrivate\<close> is the function of
  \<^verbatim>\<open>SingleApplicationPrivate\<close> of the same name, in the order in which they call one
  another.
\<close>

lemma core_getUsername_eq: "core_getUsername = getUsername"
  by (intro ext) (simp only: core_getUsername_def getUsername_def )

lemma core_blockChecksum_eq: "core_blockChecksum = blockChecksum"
  by (intro ext) (simp only: core_blockChecksum_def blockChecksum_def core_getUsername_eq)

lemma core_initializeMemoryBlock_eq: "core_initializeMemoryBlock = initializeMemoryBlock"
  by (intro ext) (simp only: core_initializeMemoryBlock_def initializeMemoryBlock_def core_getUsername_eq core_blockChecksum_eq)

lemma core_startPrimary_eq: "core_startPrimary = startPrimary"
  by (intro ext) (simp only: core_startPrimary_def startPrimary_def core_getUsername_eq core_blockChecksum_eq core_initializeMemoryBlock_eq)

lemma core_startSecondary_eq: "core_startSecondary = startSecondary"
  by (intro ext) (simp only: core_startSecondary_def startSecondary_def core_getUsername_eq core_blockChecksum_eq core_initializeMemoryBlock_eq core_startPrimary_eq)

lemma core_destructor_eq: "core_destructor = destructor"
  by (intro ext) (simp only: core_destructor_def destructor_def core_getUsername_eq core_blockChecksum_eq core_initializeMemoryBlock_eq core_startPrimary_eq core_startSecondary_eq)

lemma core_writeAck_eq: "core_writeAck = writeAck"
  by (intro ext) (simp only: core_writeAck_def writeAck_def core_getUsername_eq core_blockChecksum_eq core_initializeMemoryBlock_eq core_startPrimary_eq core_startSecondary_eq core_destructor_eq)

lemma core_readMessageHeader_eq: "core_readMessageHeader = readMessageHeader"
  by (intro ext) (simp only: core_readMessageHeader_def readMessageHeader_def core_getUsername_eq core_blockChecksum_eq core_initializeMemoryBlock_eq core_startPrimary_eq core_startSecondary_eq core_destructor_eq core_writeAck_eq)

lemma core_isFrameComplete_eq: "core_isFrameComplete = isFrameComplete"
  by (intro ext) (simp only: core_isFrameComplete_def isFrameComplete_def core_getUsername_eq core_blockChecksum_eq core_initializeMemoryBlock_eq core_startPrimary_eq core_startSecondary_eq core_destructor_eq core_writeAck_eq core_readMessageHeader_eq)

lemma core_slotDataAvailable_eq: "core_slotDataAvailable = slotDataAvailable"
  by (intro ext) (simp only: core_slotDataAvailable_def slotDataAvailable_def core_getUsername_eq core_blockChecksum_eq core_initializeMemoryBlock_eq core_startPrimary_eq core_startSecondary_eq core_destructor_eq core_writeAck_eq core_readMessageHeader_eq core_isFrameComplete_eq)

lemma core_slotClientConnectionClosed_eq: "core_slotClientConnectionClosed = slotClientConnectionClosed"
  by (intro ext) (simp only: core_slotClientConnectionClosed_def slotClientConnectionClosed_def core_getUsername_eq core_blockChecksum_eq core_initializeMemoryBlock_eq core_startPrimary_eq core_startSecondary_eq core_destructor_eq core_writeAck_eq core_readMessageHeader_eq core_isFrameComplete_eq core_slotDataAvailable_eq)

lemma core_aboutToClose_eq: "core_aboutToClose = aboutToClose"
  by (intro ext) (simp only: core_aboutToClose_def aboutToClose_def core_getUsername_eq core_blockChecksum_eq core_initializeMemoryBlock_eq core_startPrimary_eq core_startSecondary_eq core_destructor_eq core_writeAck_eq core_readMessageHeader_eq core_isFrameComplete_eq core_slotDataAvailable_eq core_slotClientConnectionClosed_eq)

lemma core_socketClose_eq: "core_socketClose = socketClose"
  by (intro ext) (simp only: core_socketClose_def socketClose_def core_getUsername_eq core_blockChecksum_eq core_initializeMemoryBlock_eq core_startPrimary_eq core_startSecondary_eq core_destructor_eq core_writeAck_eq core_readMessageHeader_eq core_isFrameComplete_eq core_slotDataAvailable_eq core_slotClientConnectionClosed_eq core_aboutToClose_eq)

lemma core_destroyed_eq: "core_destroyed = destroyed"
  by (intro ext) (simp only: core_destroyed_def destroyed_def core_getUsername_eq core_blockChecksum_eq core_initializeMemoryBlock_eq core_startPrimary_eq core_startSecondary_eq core_destructor_eq core_writeAck_eq core_readMessageHeader_eq core_isFrameComplete_eq core_slotDataAvailable_eq core_slotClientConnectionClosed_eq core_aboutToClose_eq core_socketClose_eq)

lemma core_readInitFields_eq: "core_readInitFields = readInitFields"
  by (intro ext) (simp only: core_readInitFields_def readInitFields_def core_getUsername_eq core_blockChecksum_eq core_initializeMemoryBlock_eq core_startPrimary_eq core_startSecondary_eq core_destructor_eq core_writeAck_eq core_readMessageHeader_eq core_isFrameComplete_eq core_slotDataAvailable_eq core_slotClientConnectionClosed_eq core_aboutToClose_eq core_socketClose_eq core_destroyed_eq)

lemma core_actualChecksum_eq: "core_actualChecksum = actualChecksum"
  by (intro ext) (simp only: core_actualChecksum_def actualChecksum_def core_getUsername_eq core_blockChecksum_eq core_initializeMemoryBlock_eq core_startPrimary_eq core_startSecondary_eq core_destructor_eq core_writeAck_eq core_readMessageHeader_eq core_isFrameComplete_eq core_slotDataAvailable_eq core_slotClientConnectionClosed_eq core_aboutToClose_eq core_socketClose_eq core_destroyed_eq core_readInitFields_eq)

lemma core_readInitMessageBody_eq: "core_readInitMessageBody = readInitMessageBody"
  by (intro ext) (simp only: core_readInitMessageBody_def readInitMessageBody_def core_getUsername_eq core_blockChecksum_eq core_initializeMemoryBlock_eq core_startPrimary_eq core_startSecondary_eq core_destructor_eq core_writeAck_eq core_readMessageHeader_eq core_isFrameComplete_eq core_slotDataAvailable_eq core_slotClientConnectionClosed_eq core_aboutToClose_eq core_socketClose_eq core_destroyed_eq core_readInitFields_eq core_actualChecksum_eq)

lemma core_readyRead_eq: "core_readyRead = readyRead"
  by (intro ext) (simp only: core_readyRead_def readyRead_def core_getUsername_eq core_blockChecksum_eq core_initializeMemoryBlock_eq core_startPrimary_eq core_startSecondary_eq core_destructor_eq core_writeAck_eq core_readMessageHeader_eq core_isFrameComplete_eq core_slotDataAvailable_eq core_slotClientConnectionClosed_eq core_aboutToClose_eq core_socketClose_eq core_destroyed_eq core_readInitFields_eq core_actualChecksum_eq core_readInitMessageBody_eq)

lemma core_slotConnectionEstablished_eq: "core_slotConnectionEstablished = slotConnectionEstablished"
  by (intro ext) (simp only: core_slotConnectionEstablished_def slotConnectionEstablished_def core_getUsername_eq core_blockChecksum_eq core_initializeMemoryBlock_eq core_startPrimary_eq core_startSecondary_eq core_destructor_eq core_writeAck_eq core_readMessageHeader_eq core_isFrameComplete_eq core_slotDataAvailable_eq core_slotClientConnectionClosed_eq core_aboutToClose_eq core_socketClose_eq core_destroyed_eq core_readInitFields_eq core_actualChecksum_eq core_readInitMessageBody_eq core_readyRead_eq)

lemma core_dataArrived_eq: "core_dataArrived = dataArrived"
  by (intro ext) (simp only: core_dataArrived_def dataArrived_def core_getUsername_eq core_blockChecksum_eq core_initializeMemoryBlock_eq core_startPrimary_eq core_startSecondary_eq core_destructor_eq core_writeAck_eq core_readMessageHeader_eq core_isFrameComplete_eq core_slotDataAvailable_eq core_slotClientConnectionClosed_eq core_aboutToClose_eq core_socketClose_eq core_destroyed_eq core_readInitFields_eq core_actualChecksum_eq core_readInitMessageBody_eq core_readyRead_eq core_slotConnectionEstablished_eq)

lemma core_genBlockServerName_eq: "core_genBlockServerName = genBlockServerName"
  by (intro ext) (simp only: core_genBlockServerName_def genBlockServerName_def core_getUsername_eq core_blockChecksum_eq core_initializeMemoryBlock_eq core_startPrimary_eq core_startSecondary_eq core_destructor_eq core_writeAck_eq core_readMessageHeader_eq core_isFrameComplete_eq core_slotDataAvailable_eq core_slotClientConnectionClosed_eq core_aboutToClose_eq core_socketClose_eq core_destroyed_eq core_readInitFields_eq core_actualChecksum_eq core_readInitMessageBody_eq core_readyRead_eq core_slotConnectionEstablished_eq core_dataArrived_eq)

lemma core_socketWrite_eq: "core_socketWrite = socketWrite"
  by (intro ext) (simp only: core_socketWrite_def socketWrite_def core_getUsername_eq core_blockChecksum_eq core_initializeMemoryBlock_eq core_startPrimary_eq core_startSecondary_eq core_destructor_eq core_writeAck_eq core_readMessageHeader_eq core_isFrameComplete_eq core_slotDataAvailable_eq core_slotClientConnectionClosed_eq core_aboutToClose_eq core_socketClose_eq core_destroyed_eq core_readInitFields_eq core_actualChecksum_eq core_readInitMessageBody_eq core_readyRead_eq core_slotConnectionEstablished_eq core_dataArrived_eq core_genBlockServerName_eq)

lemma core_writeConfirmedFrame_eq: "core_writeConfirmedFrame = writeConfirmedFrame"
  by (intro ext) (simp only: core_writeConfirmedFrame_def writeConfirmedFrame_def core_getUsername_eq core_blockChecksum_eq core_initializeMemoryBlock_eq core_startPrimary_eq core_startSecondary_eq core_destructor_eq core_writeAck_eq core_readMessageHeader_eq core_isFrameComplete_eq core_slotDataAvailable_eq core_slotClientConnectionClosed_eq core_aboutToClose_eq core_socketClose_eq core_destroyed_eq core_readInitFields_eq core_actualChecksum_eq core_readInitMessageBody_eq core_readyRead_eq core_slotConnectionEstablished_eq core_dataArrived_eq core_genBlockServerName_eq core_socketWrite_eq)

lemma core_writeConfirmedMessage_eq: "core_writeConfirmedMessage = writeConfirmedMessage"
  by (intro ext) (simp only: core_writeConfirmedMessage_def writeConfirmedMessage_def core_getUsername_eq core_blockChecksum_eq core_initializeMemoryBlock_eq core_startPrimary_eq core_startSecondary_eq core_destructor_eq core_writeAck_eq core_readMessageHeader_eq core_isFrameComplete_eq core_slotDataAvailable_eq core_slotClientConnectionClosed_eq core_aboutToClose_eq core_socketClose_eq core_destroyed_eq core_readInitFields_eq core_actualChecksum_eq core_readInitMessageBody_eq core_readyRead_eq core_slotConnectionEstablished_eq core_dataArrived_eq core_genBlockServerName_eq core_socketWrite_eq core_writeConfirmedFrame_eq)

lemma core_enterState_eq: "core_enterState = enterState"
  by (intro ext) (simp only: core_enterState_def enterState_def core_getUsername_eq core_blockChecksum_eq core_initializeMemoryBlock_eq core_startPrimary_eq core_startSecondary_eq core_destructor_eq core_writeAck_eq core_readMessageHeader_eq core_isFrameComplete_eq core_slotDataAvailable_eq core_slotClientConnectionClosed_eq core_aboutToClose_eq core_socketClose_eq core_destroyed_eq core_readInitFields_eq core_actualChecksum_eq core_readInitMessageBody_eq core_readyRead_eq core_slotConnectionEstablished_eq core_dataArrived_eq core_genBlockServerName_eq core_socketWrite_eq core_writeConfirmedFrame_eq core_writeConfirmedMessage_eq)

lemma core_connectToServer_eq: "core_connectToServer = connectToServer"
  by (intro ext) (simp only: core_connectToServer_def connectToServer_def core_getUsername_eq core_blockChecksum_eq core_initializeMemoryBlock_eq core_startPrimary_eq core_startSecondary_eq core_destructor_eq core_writeAck_eq core_readMessageHeader_eq core_isFrameComplete_eq core_slotDataAvailable_eq core_slotClientConnectionClosed_eq core_aboutToClose_eq core_socketClose_eq core_destroyed_eq core_readInitFields_eq core_actualChecksum_eq core_readInitMessageBody_eq core_readyRead_eq core_slotConnectionEstablished_eq core_dataArrived_eq core_genBlockServerName_eq core_socketWrite_eq core_writeConfirmedFrame_eq core_writeConfirmedMessage_eq core_enterState_eq)

lemma core_waitForConnected_eq: "core_waitForConnected = waitForConnected"
  by (intro ext) (simp only: core_waitForConnected_def waitForConnected_def core_getUsername_eq core_blockChecksum_eq core_initializeMemoryBlock_eq core_startPrimary_eq core_startSecondary_eq core_destructor_eq core_writeAck_eq core_readMessageHeader_eq core_isFrameComplete_eq core_slotDataAvailable_eq core_slotClientConnectionClosed_eq core_aboutToClose_eq core_socketClose_eq core_destroyed_eq core_readInitFields_eq core_actualChecksum_eq core_readInitMessageBody_eq core_readyRead_eq core_slotConnectionEstablished_eq core_dataArrived_eq core_genBlockServerName_eq core_socketWrite_eq core_writeConfirmedFrame_eq core_writeConfirmedMessage_eq core_enterState_eq core_connectToServer_eq)

lemma core_randomSleep_eq: "core_randomSleep = randomSleep"
  by (intro ext) (simp only: core_randomSleep_def randomSleep_def core_getUsername_eq core_blockChecksum_eq core_initializeMemoryBlock_eq core_startPrimary_eq core_startSecondary_eq core_destructor_eq core_writeAck_eq core_readMessageHeader_eq core_isFrameComplete_eq core_slotDataAvailable_eq core_slotClientConnectionClosed_eq core_aboutToClose_eq core_socketClose_eq core_destroyed_eq core_readInitFields_eq core_actualChecksum_eq core_readInitMessageBody_eq core_readyRead_eq core_slotConnectionEstablished_eq core_dataArrived_eq core_genBlockServerName_eq core_socketWrite_eq core_writeConfirmedFrame_eq core_writeConfirmedMessage_eq core_enterState_eq core_connectToServer_eq core_waitForConnected_eq)

lemma core_connectLoop_apply:
  "core_connectLoop n timeout name w = connectLoop n timeout name w"
  by (induction n arbitrary: w) (simp_all only: core_connectLoop.simps connectLoop.simps core_getUsername_eq core_blockChecksum_eq core_initializeMemoryBlock_eq core_startPrimary_eq core_startSecondary_eq core_destructor_eq core_writeAck_eq core_readMessageHeader_eq core_isFrameComplete_eq core_slotDataAvailable_eq core_slotClientConnectionClosed_eq core_aboutToClose_eq core_socketClose_eq core_destroyed_eq core_readInitFields_eq core_actualChecksum_eq core_readInitMessageBody_eq core_readyRead_eq core_slotConnectionEstablished_eq core_dataArrived_eq core_genBlockServerName_eq core_socketWrite_eq core_writeConfirmedFrame_eq core_writeConfirmedMessage_eq core_enterState_eq core_connectToServer_eq core_waitForConnected_eq core_randomSleep_eq)

lemma core_connectLoop_eq: "core_connectLoop = connectLoop"
  by (intro ext) (rule core_connectLoop_apply)

lemma core_connectToPrimary_eq: "core_connectToPrimary = connectToPrimary"
  by (intro ext) (simp only: core_connectToPrimary_def connectToPrimary_def core_getUsername_eq core_blockChecksum_eq core_initializeMemoryBlock_eq core_startPrimary_eq core_startSecondary_eq core_destructor_eq core_writeAck_eq core_readMessageHeader_eq core_isFrameComplete_eq core_slotDataAvailable_eq core_slotClientConnectionClosed_eq core_aboutToClose_eq core_socketClose_eq core_destroyed_eq core_readInitFields_eq core_actualChecksum_eq core_readInitMessageBody_eq core_readyRead_eq core_slotConnectionEstablished_eq core_dataArrived_eq core_genBlockServerName_eq core_socketWrite_eq core_writeConfirmedFrame_eq core_writeConfirmedMessage_eq core_enterState_eq core_connectToServer_eq core_waitForConnected_eq core_randomSleep_eq core_connectLoop_eq)

text \<open>
  C9. The headless copy and the GUI copy compute the same function, operation by
  operation: the derivation of the block name, the operations on the block, the
  connection of a secondary with its framed and acknowledged writes, and the slots of
  the primary's listener.
\<close>

theorem core_copy_equivalent:
  "core_genBlockServerName = genBlockServerName \<and>
   core_getUsername = getUsername \<and>
   core_blockChecksum = blockChecksum \<and>
   core_initializeMemoryBlock = initializeMemoryBlock \<and>
   core_startPrimary = startPrimary \<and>
   core_startSecondary = startSecondary \<and>
   core_destructor = destructor \<and>
   core_connectToPrimary = connectToPrimary \<and>
   core_randomSleep = randomSleep \<and>
   core_writeConfirmedMessage = writeConfirmedMessage \<and>
   core_writeConfirmedFrame = writeConfirmedFrame \<and>
   core_writeAck = writeAck \<and>
   core_slotConnectionEstablished = slotConnectionEstablished \<and>
   core_readyRead = readyRead \<and>
   core_aboutToClose = aboutToClose \<and>
   core_destroyed = destroyed \<and>
   core_readMessageHeader = readMessageHeader \<and>
   core_isFrameComplete = isFrameComplete \<and>
   core_readInitMessageBody = readInitMessageBody \<and>
   core_slotDataAvailable = slotDataAvailable \<and>
   core_slotClientConnectionClosed = slotClientConnectionClosed"
  by (simp only: core_genBlockServerName_eq core_getUsername_eq core_blockChecksum_eq core_initializeMemoryBlock_eq core_startPrimary_eq core_startSecondary_eq core_destructor_eq core_connectToPrimary_eq core_randomSleep_eq core_writeConfirmedMessage_eq core_writeConfirmedFrame_eq core_writeAck_eq core_slotConnectionEstablished_eq core_readyRead_eq core_aboutToClose_eq core_destroyed_eq core_readMessageHeader_eq core_isFrameComplete_eq core_readInitMessageBody_eq core_slotDataAvailable_eq core_slotClientConnectionClosed_eq simp_thms)

theorem core_copy_equivalent_witness:
  "core_readyRead samplePlatform 0 (sampleListener (put_quint64 5 @ [9]) newConnectionInfo) =
     readyRead samplePlatform 0 (sampleListener (put_quint64 5 @ [9]) newConnectionInfo) \<and>
   core_startSecondary samplePlatform sampleBlock sampleProcess =
     startSecondary samplePlatform sampleBlock sampleProcess"
  using core_copy_equivalent by simp

end
